theory Spec2Isabelle
  imports Main
begin

section \<open>Values, errors and the library boundary\<close>

text \<open>
  The pipeline of \<^verbatim>\<open>utils.py\<close>, \<^verbatim>\<open>silver.py\<close> and \<^verbatim>\<open>gold.py\<close> works on pandas
  data frames. A cell of a frame is modelled by the Python object it holds. The three
  missing-value objects of pandas are kept apart, since \<^verbatim>\<open>str\<close> tells them apart:
  \<open>NaN\<close> (float and object columns), \<open>NA\<close> (the nullable \<^verbatim>\<open>Int64\<close> columns) and
  \<open>NaT\<close> (datetime columns). Floating-point values are of an abstract type \<open>'f\<close>:
  nothing is assumed about their arithmetic. A timestamp is its number of nanoseconds
  since the epoch. Strings are byte strings: the character classes below are the ASCII
  part of Python's.
\<close>

datatype 'f cell =
    NaN | NA | NaT
  | IntV int | FloatV 'f | StrV string | DateV int | ListV "string list"

fun isna :: "'f cell \<Rightarrow> bool" where
  "isna NaN = True"
| "isna NA = True"
| "isna NaT = True"
| "isna _ = False"

definition notna :: "'f cell \<Rightarrow> bool" where
  "notna v = (\<not> isna v)"

text \<open>
  Exceptions are values. Each carries the text that \<^verbatim>\<open>str(e)\<close> gives; for the
  exceptions that the library raises the text is the library's and is abbreviated here.
\<close>

datatype error =
    KeyError string | TypeError string | AttributeError string
  | ValueError string | FileNotFoundError string | OSError string

fun err_msg :: "error \<Rightarrow> string" where
  "err_msg (KeyError k) = [CHR 0x27] @ k @ [CHR 0x27]"
| "err_msg (TypeError m) = m"
| "err_msg (AttributeError m) = m"
| "err_msg (ValueError m) = m"
| "err_msg (FileNotFoundError m) = m"
| "err_msg (OSError m) = m"

text \<open>
  What the source takes from pandas, numpy and the clock without fixing it: the parsers
  of numbers and dates in strings, the float operations, the printed form of floats,
  timestamps and lists. They are the fields of one record that every operation using
  them receives; the theorems hold for every such record. String parsing is taken
  elementwise: what a string parses to does not depend on the rest of its column.
\<close>

record 'f pandas =
  parse_number :: "string \<Rightarrow> 'f cell"
  parse_timestamp :: "string \<Rightarrow> int option"
  float_of_int :: "int \<Rightarrow> 'f"
  int_of_float :: "'f \<Rightarrow> int option"
  ns_of_float :: "'f \<Rightarrow> int option"
  float_le :: "'f \<Rightarrow> 'f \<Rightarrow> bool"
  float_mul :: "'f \<Rightarrow> 'f \<Rightarrow> 'f"
  float_log1p :: "'f \<Rightarrow> 'f"
  repr_float :: "'f \<Rightarrow> string"
  repr_timestamp :: "int \<Rightarrow> string"
  repr_list :: "string list \<Rightarrow> string"
  year_of :: "int \<Rightarrow> int"
  today :: int
  utcnow_year :: int
  utcnow_iso :: string

subsection \<open>Python strings\<close>

definition is_digit :: "char \<Rightarrow> bool" where
  "is_digit c = (48 \<le> (of_char c :: nat) \<and> (of_char c :: nat) \<le> 57)"

definition digit_val :: "char \<Rightarrow> int" where
  "digit_val c = int (of_char c) - 48"

definition is_space :: "char \<Rightarrow> bool" where
  "is_space c = ((of_char c :: nat) \<in> {9, 10, 11, 12, 13, 28, 29, 30, 31, 32})"

definition is_upper :: "char \<Rightarrow> bool" where
  "is_upper c = (65 \<le> (of_char c :: nat) \<and> (of_char c :: nat) \<le> 90)"

definition is_lower :: "char \<Rightarrow> bool" where
  "is_lower c = (97 \<le> (of_char c :: nat) \<and> (of_char c :: nat) \<le> 122)"

definition lower_char :: "char \<Rightarrow> char" where
  "lower_char c = (if is_upper c then char_of ((of_char c :: nat) + 32) else c)"

definition upper_char :: "char \<Rightarrow> char" where
  "upper_char c = (if is_lower c then char_of ((of_char c :: nat) - 32) else c)"

definition lower :: "string \<Rightarrow> string" where
  "lower s = map lower_char s"

definition strip :: "string \<Rightarrow> string" where
  "strip s = rev (dropWhile is_space (rev (dropWhile is_space s)))"

text \<open>\<^verbatim>\<open>str.title\<close>: a letter after a letter is lowered, any other letter is raised.\<close>

fun title_from :: "bool \<Rightarrow> string \<Rightarrow> string" where
  "title_from prev [] = []"
| "title_from prev (c # cs) =
     (if is_upper c \<or> is_lower c
      then (if prev then lower_char c else upper_char c) # title_from True cs
      else c # title_from False cs)"

definition title :: "string \<Rightarrow> string" where
  "title s = title_from False s"

text \<open>\<^verbatim>\<open>str\<close> of a Python int.\<close>

function digits_of :: "int \<Rightarrow> string" where
  "digits_of i =
     (if i < 10 then [char_of (48 + i)] else digits_of (i div 10) @ [char_of (48 + i mod 10)])"
  by pat_completeness auto
termination
  by (relation "measure nat") auto

declare digits_of.simps [simp del]

definition str_int :: "int \<Rightarrow> string" where
  "str_int i = (if i < 0 then CHR ''-'' # digits_of (- i) else digits_of i)"

text \<open>\<^verbatim>\<open>str(val)\<close> of the object in a cell.\<close>

fun py_str :: "'f pandas \<Rightarrow> 'f cell \<Rightarrow> string" where
  "py_str E NaN = ''nan''"
| "py_str E NA = ''<NA>''"
| "py_str E NaT = ''NaT''"
| "py_str E (IntV i) = str_int i"
| "py_str E (FloatV x) = repr_float E x"
| "py_str E (StrV s) = s"
| "py_str E (DateV t) = repr_timestamp E t"
| "py_str E (ListV l) = repr_list E l"

section \<open>Regular expressions\<close>

text \<open>
  The patterns of the source and of the rule file, as syntax trees: \<open>Star\<close> is the greedy
  \<^verbatim>\<open>*\<close>, \<open>Lazy\<close> the lazy \<^verbatim>\<open>*?\<close>, \<open>Eol\<close> is \<^verbatim>\<open>$\<close>. A leading \<^verbatim>\<open>^\<close> adds nothing to
  \<^verbatim>\<open>re.match\<close> and has no constructor.
\<close>

datatype regex =
    Eps | Chr char | Dot | Digit | Space | OneOf "char list" | NoneOf "char list"
  | Seq regex regex | Alt regex regex | Star regex | Lazy regex | Eol

text \<open>
  The matcher follows the backtracking of \<^verbatim>\<open>re\<close>: \<open>rems p s\<close> lists, in the order the
  engine tries them, the rests of \<open>s\<close> that matching \<open>p\<close> at the start of \<open>s\<close> can leave. A
  greedy repetition tries one more round first, a lazy one tries to stop first, and a
  round that consumes nothing is not repeated.
\<close>

definition newline :: char where
  "newline = CHR 0x0A"

fun rems :: "regex \<Rightarrow> string \<Rightarrow> string list" where
  "rems Eps s = [s]"
| "rems (Chr c) s = (case s of [] \<Rightarrow> [] | x # xs \<Rightarrow> if x = c then [xs] else [])"
| "rems Dot s = (case s of [] \<Rightarrow> [] | x # xs \<Rightarrow> if x \<noteq> newline then [xs] else [])"
| "rems Digit s = (case s of [] \<Rightarrow> [] | x # xs \<Rightarrow> if is_digit x then [xs] else [])"
| "rems Space s = (case s of [] \<Rightarrow> [] | x # xs \<Rightarrow> if is_space x then [xs] else [])"
| "rems (OneOf cs) s = (case s of [] \<Rightarrow> [] | x # xs \<Rightarrow> if x \<in> set cs then [xs] else [])"
| "rems (NoneOf cs) s = (case s of [] \<Rightarrow> [] | x # xs \<Rightarrow> if x \<notin> set cs then [xs] else [])"
| "rems (Seq a b) s = concat (map (rems b) (rems a s))"
| "rems (Alt a b) s = rems a s @ rems b s"
| "rems (Star a) s =
     concat (map (rems (Star a)) (filter (\<lambda>t. length t < length s) (rems a s))) @ [s]"
| "rems (Lazy a) s =
     s # concat (map (rems (Lazy a)) (filter (\<lambda>t. length t < length s) (rems a s)))"
| "rems Eol s = (if s = [] \<or> s = [newline] then [s] else [])"

text \<open>\<^verbatim>\<open>re.match(p, s)\<close> finds a match at the start of \<open>s\<close>; \<^verbatim>\<open>re.fullmatch(p, s)\<close> one
  that takes all of \<open>s\<close>.\<close>

definition re_match :: "regex \<Rightarrow> string \<Rightarrow> bool" where
  "re_match p s = (rems p s \<noteq> [])"

definition re_fullmatch :: "regex \<Rightarrow> string \<Rightarrow> bool" where
  "re_fullmatch p s = ([] \<in> set (rems p s))"

text \<open>\<^verbatim>\<open>re.search(p, s)\<close>: the text of the leftmost match, the first that the engine
  finds there.\<close>

fun re_search :: "regex \<Rightarrow> string \<Rightarrow> string option" where
  "re_search p [] = (case rems p [] of [] \<Rightarrow> None | t # ts \<Rightarrow> Some [])"
| "re_search p (c # cs) =
     (case rems p (c # cs) of
        [] \<Rightarrow> re_search p cs
      | t # ts \<Rightarrow> Some (take (length (c # cs) - length t) (c # cs)))"

text \<open>
  \<^verbatim>\<open>re.sub(p, "", s)\<close>: the matches are cut out from left to right, the search going on
  behind each match; where nothing (or only the empty string) matches, the character is
  kept.
\<close>

function re_sub :: "regex \<Rightarrow> string \<Rightarrow> string" where
  "re_sub p [] = []"
| "re_sub p (c # cs) =
     (case rems p (c # cs) of
        [] \<Rightarrow> c # re_sub p cs
      | t # ts \<Rightarrow> if length t \<le> length cs then re_sub p t else c # re_sub p cs)"
  by pat_completeness auto
termination
  by (relation "measure (\<lambda>(p, s). length s)") auto

text \<open>\<^verbatim>\<open>re.escape(word)\<close> as a pattern: the characters of the word, one after the other.\<close>

definition lit :: "string \<Rightarrow> regex" where
  "lit word = foldr (\<lambda>c r. Seq (Chr c) r) word Eps"

section \<open>The checksum predicates of the registry\<close>

text \<open>\<^verbatim>\<open>re.fullmatch(r"\d{n}", s)\<close>.\<close>

definition fullmatch_digits :: "nat \<Rightarrow> string \<Rightarrow> bool" where
  "fullmatch_digits n s = (length s = n \<and> list_all is_digit s)"

text \<open>
  \<^verbatim>\<open>validate_isbn10_checksum(val)\<close>. The pattern is matched against \<^verbatim>\<open>str(val)\<close>, the
  slices \<^verbatim>\<open>val[:9]\<close> and \<^verbatim>\<open>val[-1]\<close> are taken of \<^verbatim>\<open>val\<close> itself: an object that is
  not a string and prints as ten digits raises \<^verbatim>\<open>TypeError\<close> there.
\<close>

definition isbn10_total :: "string \<Rightarrow> int" where
  "isbn10_total s = sum_list (map (\<lambda>(i, d). (10 - int i) * digit_val d) (enumerate 0 (take 9 s)))"

definition validate_isbn10_checksum :: "'f pandas \<Rightarrow> 'f cell \<Rightarrow> error + bool" where
  "validate_isbn10_checksum E val =
     (if \<not> fullmatch_digits 10 (py_str E val) then Inr False
      else case val of
        StrV s \<Rightarrow>
          (let total = isbn10_total s;
               check = (11 - (total mod 11)) mod 11
           in Inr ((if check < 10 then str_int check else ''X'') = [last s]))
      | _ \<Rightarrow> Inl (TypeError ''object is not subscriptable''))"

definition isbn13_total :: "string \<Rightarrow> int" where
  "isbn13_total s =
     sum_list (map (\<lambda>(i, d). (if i mod 2 = 0 then 1 else 3) * digit_val d) (enumerate 0 (take 12 s)))"

definition validate_isbn13_checksum :: "'f pandas \<Rightarrow> 'f cell \<Rightarrow> error + bool" where
  "validate_isbn13_checksum E val =
     (if \<not> fullmatch_digits 13 (py_str E val) then Inr False
      else case val of
        StrV s \<Rightarrow>
          (let total = isbn13_total s;
               check = (10 - (total mod 10)) mod 10
           in Inr (check = digit_val (last s)))
      | _ \<Rightarrow> Inl (TypeError ''object is not subscriptable''))"

text \<open>\<^verbatim>\<open>UDF_REGISTRY.get(name)\<close>.\<close>

definition UDF_REGISTRY :: "string \<Rightarrow> ('f pandas \<Rightarrow> 'f cell \<Rightarrow> error + bool) option" where
  "UDF_REGISTRY name =
     (if name = ''validate_isbn10_checksum'' then Some validate_isbn10_checksum
      else if name = ''validate_isbn13_checksum'' then Some validate_isbn13_checksum
      else None)"

section \<open>Publisher names\<close>

definition formal_words :: "string list" where
  "formal_words = [''inc.'', ''inc'', ''ltd'', ''llc'', ''press'', ''publishing'', ''books'',
     ''company'', ''corp.'', ''corporation'', ''limited'', ''verlag'']"

text \<open>The pattern \<^verbatim>\<open>r"\s*" + re.escape(word) + r"\s*$"\<close>.\<close>

definition suffix_pattern :: "string \<Rightarrow> regex" where
  "suffix_pattern word = Seq (Star Space) (Seq (lit word) (Seq (Star Space) Eol))"

text \<open>
  \<^verbatim>\<open>clean_publisher_name(name)\<close>; \<^verbatim>\<open>name.lower()\<close> raises \<^verbatim>\<open>AttributeError\<close> on an
  object that is not a string (a missing publisher is the float \<^verbatim>\<open>nan\<close>).
\<close>

definition clean_publisher_name :: "'f cell \<Rightarrow> error + string" where
  "clean_publisher_name name =
     (case name of
        StrV s \<Rightarrow>
          Inr (title (strip (foldl (\<lambda>n word. re_sub (suffix_pattern word) n) (lower s) formal_words)))
      | _ \<Rightarrow> Inl (AttributeError ''object has no attribute lower''))"

section \<open>Data frames, metadata and rules\<close>

text \<open>
  A data frame is its list of column labels and its list of records, in index order; a
  record gives the cell of every column. Operations are modelled record by record, values
  elementwise: where pandas decides by the dtype of a whole column (refusing an operation
  on a column of the wrong dtype, or widening integers to floats), the model follows the
  objects in the cells.
\<close>

type_synonym 'f row = "string \<Rightarrow> 'f cell"

record 'f dataframe =
  columns :: "string list"
  rows :: "'f row list"

text \<open>A row of \<^verbatim>\<open>silver_md.csv\<close>.\<close>

record meta_row =
  md_table_name :: string
  column_name :: string
  PK :: int
  NON_NULLABLE :: int
  UNIQUE :: int
  dtype :: string

record 'f range_rule =
  range_col :: string
  range_type :: "string option"
  range_min :: "'f cell option"
  range_max :: "'f cell option"

text \<open>The rule bundle \<^verbatim>\<open>flex_rules\<close>; a category absent from the JSON document is empty.\<close>

record 'f flex_rules =
  defaults :: "(string \<times> 'f cell) list"
  mappings :: "(string \<times> (string \<times> 'f cell) list) list"
  ranges :: "'f range_rule list"
  regex_rules :: "(string \<times> regex) list"
  custom_checks :: "(string \<times> string) list"

definition no_rules :: "'f flex_rules" where
  "no_rules = \<lparr>defaults = [], mappings = [], ranges = [], regex_rules = [], custom_checks = []\<rparr>"

text \<open>
  The state of a \<^verbatim>\<open>DataCleaning\<close> object, and with it the warnings it has sent to
  \<^verbatim>\<open>logging\<close>.
\<close>

record 'f DataCleaning =
  df :: "'f dataframe"
  table_name :: string
  meta_data_table :: "meta_row list"
  flex_rules :: "'f flex_rules"
  logged :: "string list"

definition set_rows :: "'f row list \<Rightarrow> 'f DataCleaning \<Rightarrow> 'f DataCleaning" where
  "set_rows rs c = c\<lparr>df := (df c)\<lparr>rows := rs\<rparr>\<rparr>"

definition warn :: "string \<Rightarrow> 'f DataCleaning \<Rightarrow> 'f DataCleaning" where
  "warn msg c = c\<lparr>logged := logged c @ [msg]\<rparr>"

text \<open>\<^verbatim>\<open>df[cols]\<close> raises \<^verbatim>\<open>KeyError\<close> for a label that is not a column.\<close>

definition missing_column :: "string list \<Rightarrow> 'f dataframe \<Rightarrow> string option" where
  "missing_column cols d = find (\<lambda>k. k \<notin> set (columns d)) cols"

text \<open>\<^verbatim>\<open>df[cols].notna().all(axis=1)\<close>.\<close>

definition all_notna :: "string list \<Rightarrow> 'f row \<Rightarrow> bool" where
  "all_notna cols r = list_all (\<lambda>k. notna (r k)) cols"

text \<open>
  \<^verbatim>\<open>drop_duplicates(subset=cols, keep="first")\<close>: a record is dropped when the tuple of
  its cells in \<open>cols\<close> has been seen in an earlier record.
\<close>

fun drop_seen :: "string list \<Rightarrow> 'f cell list list \<Rightarrow> 'f row list \<Rightarrow> 'f row list" where
  "drop_seen cols seen [] = []"
| "drop_seen cols seen (r # rs) =
     (if map r cols \<in> set seen then drop_seen cols seen rs
      else r # drop_seen cols (map r cols # seen) rs)"

definition drop_duplicates :: "string list \<Rightarrow> 'f row list \<Rightarrow> 'f row list" where
  "drop_duplicates cols rs = drop_seen cols [] rs"

section \<open>The cleaning stages\<close>

definition flagged :: "(meta_row \<Rightarrow> int) \<Rightarrow> meta_row list \<Rightarrow> string list" where
  "flagged flag md = map column_name (filter (\<lambda>m. flag m = 1) md)"

definition validate_primary_keys :: "'f DataCleaning \<Rightarrow> error + 'f DataCleaning" where
  "validate_primary_keys c =
     (let pk_cols = flagged PK (meta_data_table c) in
      if pk_cols \<noteq> [] then
        (case missing_column pk_cols (df c) of
           Some k \<Rightarrow> Inl (KeyError k)
         | None \<Rightarrow>
             Inr (set_rows (drop_duplicates pk_cols (filter (all_notna pk_cols) (rows (df c)))) c))
      else Inr (warn (''No PK defined for '' @ table_name c) c))"

definition validate_non_nulls :: "'f DataCleaning \<Rightarrow> error + 'f DataCleaning" where
  "validate_non_nulls c =
     (let nn_cols = flagged NON_NULLABLE (meta_data_table c) in
      if nn_cols \<noteq> [] then
        (case missing_column nn_cols (df c) of
           Some k \<Rightarrow> Inl (KeyError k)
         | None \<Rightarrow> Inr (set_rows (filter (all_notna nn_cols) (rows (df c))) c))
      else Inr c)"

fun unique_loop :: "string list \<Rightarrow> 'f DataCleaning \<Rightarrow> error + 'f DataCleaning" where
  "unique_loop [] c = Inr c"
| "unique_loop (col # cols) c =
     (case missing_column [col] (df c) of
        Some k \<Rightarrow> Inl (KeyError k)
      | None \<Rightarrow> unique_loop cols (set_rows (drop_duplicates [col] (rows (df c))) c))"

definition validate_unique :: "'f DataCleaning \<Rightarrow> error + 'f DataCleaning" where
  "validate_unique c = unique_loop (flagged UNIQUE (meta_data_table c)) c"

subsection \<open>A small table for the examples\<close>

definition pk_meta :: "meta_row list" where
  "pk_meta = [\<lparr>md_table_name = ''books'', column_name = ''id'', PK = 1, NON_NULLABLE = 1,
                UNIQUE = 0, dtype = ''string''\<rparr>]"

definition pk_frame :: "'f dataframe" where
  "pk_frame = \<lparr>columns = [''id'', ''title''],
     rows = [(\<lambda>_. NaN)(''id'' := StrV ''a1'', ''title'' := StrV ''x''),
             (\<lambda>_. NaN)(''title'' := StrV ''y''),
             (\<lambda>_. NaN)(''id'' := StrV ''a1'', ''title'' := StrV ''z''),
             (\<lambda>_. NaN)(''id'' := StrV ''b2'', ''title'' := StrV ''w'')]\<rparr>"

definition pk_cleaner :: "'f DataCleaning" where
  "pk_cleaner = \<lparr>df = pk_frame, table_name = ''books'', meta_data_table = pk_meta,
     flex_rules = no_rules, logged = []\<rparr>"

subsection \<open>Datatype coercion\<close>

text \<open>A column operation raises when it raises on one of the cells.\<close>

fun map_result :: "('a \<Rightarrow> error + 'b) \<Rightarrow> 'a list \<Rightarrow> error + 'b list" where
  "map_result f [] = Inr []"
| "map_result f (x # xs) =
     (case f x of
        Inl e \<Rightarrow> Inl e
      | Inr y \<Rightarrow> (case map_result f xs of Inl e \<Rightarrow> Inl e | Inr ys \<Rightarrow> Inr (y # ys)))"

text \<open>
  \<^verbatim>\<open>pd.to_numeric(column, errors="coerce")\<close> on one cell: numbers stay, a string is
  parsed (\<open>NaN\<close> when it cannot be), a datetime is viewed as its integer, and on a datetime
  column \<open>NaT\<close> is the least 64-bit integer. The \<^verbatim>\<open>downcast\<close> argument changes the width of
  the integers, not their values.
\<close>

fun to_numeric :: "'f pandas \<Rightarrow> 'f cell \<Rightarrow> 'f cell" where
  "to_numeric E NaN = NaN"
| "to_numeric E NA = NA"
| "to_numeric E NaT = IntV (- 9223372036854775808)"
| "to_numeric E (IntV i) = IntV i"
| "to_numeric E (FloatV x) = FloatV x"
| "to_numeric E (StrV s) = parse_number E s"
| "to_numeric E (DateV t) = IntV t"
| "to_numeric E (ListV l) = NaN"

text \<open>\<^verbatim>\<open>astype("Int64")\<close>: a float that is not a whole number cannot be cast.\<close>

fun astype_Int64 :: "'f pandas \<Rightarrow> 'f cell \<Rightarrow> error + 'f cell" where
  "astype_Int64 E NaN = Inr NA"
| "astype_Int64 E NA = Inr NA"
| "astype_Int64 E NaT = Inr NA"
| "astype_Int64 E (IntV i) = Inr (IntV i)"
| "astype_Int64 E (FloatV x) =
     (case int_of_float E x of
        Some i \<Rightarrow> Inr (IntV i)
      | None \<Rightarrow> Inl (TypeError ''cannot safely cast non-equivalent float64 to int64''))"
| "astype_Int64 E _ = Inl (TypeError ''cannot cast object to Int64'')"

fun astype_float :: "'f pandas \<Rightarrow> 'f cell \<Rightarrow> error + 'f cell" where
  "astype_float E NaN = Inr NaN"
| "astype_float E NA = Inr NaN"
| "astype_float E NaT = Inr NaN"
| "astype_float E (IntV i) = Inr (FloatV (float_of_int E i))"
| "astype_float E (FloatV x) = Inr (FloatV x)"
| "astype_float E _ = Inl (ValueError ''could not convert to float'')"

text \<open>
  \<^verbatim>\<open>pd.to_datetime(column, errors="coerce")\<close> on one cell: an integer is a number of
  nanoseconds (the least 64-bit integer is \<open>NaT\<close>), a string is parsed.
\<close>

fun to_datetime :: "'f pandas \<Rightarrow> 'f cell \<Rightarrow> 'f cell" where
  "to_datetime E NaN = NaT"
| "to_datetime E NA = NaT"
| "to_datetime E NaT = NaT"
| "to_datetime E (IntV i) = (if i = - 9223372036854775808 then NaT else DateV i)"
| "to_datetime E (FloatV x) = (case ns_of_float E x of Some t \<Rightarrow> DateV t | None \<Rightarrow> NaT)"
| "to_datetime E (StrV s) = (case parse_timestamp E s of Some t \<Rightarrow> DateV t | None \<Rightarrow> NaT)"
| "to_datetime E (DateV t) = DateV t"
| "to_datetime E (ListV l) = NaT"

text \<open>
  One typed branch of the loop of \<^verbatim>\<open>validate_datatype\<close>:
  \<^verbatim>\<open>coerced = coerce(df[col]); df = df[~(coerced.isna() & df[col].notna())];
  df[col] = cast(coerced)\<close>. The cast is of the whole coerced column; the assignment
  aligns it with the records that are left.
\<close>

definition coerce_column ::
  "string \<Rightarrow> ('f cell \<Rightarrow> 'f cell) \<Rightarrow> ('f cell \<Rightarrow> error + 'f cell) \<Rightarrow> 'f dataframe
     \<Rightarrow> error + 'f dataframe" where
  "coerce_column col coerce cast d =
     (case map_result (\<lambda>r. cast (coerce (r col))) (rows d) of
        Inl e \<Rightarrow> Inl e
      | Inr casted \<Rightarrow>
          Inr (d\<lparr>rows := map (\<lambda>(r, w). r(col := w))
                   (filter (\<lambda>(r, w). \<not> (isna (coerce (r col)) \<and> notna (r col)))
                      (zip (rows d) casted))\<rparr>))"

definition missing_warning :: "string \<Rightarrow> string" where
  "missing_warning col =
     ''Column '' @ [CHR 0x27] @ col @ [CHR 0x27] @ '' missing in data ''
       @ [CHR 0xE2, CHR 0x80, CHR 0x93] @ '' skipped''"

definition datatype_step ::
  "'f pandas \<Rightarrow> meta_row \<Rightarrow> 'f dataframe \<times> string list \<Rightarrow> error + 'f dataframe \<times> string list" where
  "datatype_step E m st =
     (let d = fst st; lg = snd st; col = column_name m; dt = lower (dtype m) in
      if col \<notin> set (columns d) then Inr (d, lg @ [missing_warning col])
      else if dt \<in> {''int'', ''integer''} then
        (case coerce_column col (to_numeric E) (astype_Int64 E) d of
           Inl e \<Rightarrow> Inl e | Inr d' \<Rightarrow> Inr (d', lg))
      else if dt \<in> {''float'', ''double''} then
        (case coerce_column col (to_numeric E) (astype_float E) d of
           Inl e \<Rightarrow> Inl e | Inr d' \<Rightarrow> Inr (d', lg))
      else if dt \<in> {''date'', ''datetime''} then
        (case coerce_column col (to_datetime E) Inr d of
           Inl e \<Rightarrow> Inl e | Inr d' \<Rightarrow> Inr (d', lg))
      else Inr (d\<lparr>rows := map (\<lambda>r. r(col := StrV (py_str E (r col)))) (rows d)\<rparr>, lg))"

fun datatype_loop ::
  "'f pandas \<Rightarrow> meta_row list \<Rightarrow> 'f dataframe \<times> string list \<Rightarrow> error + 'f dataframe \<times> string list" where
  "datatype_loop E [] st = Inr st"
| "datatype_loop E (m # ms) st =
     (case datatype_step E m st of Inl e \<Rightarrow> Inl e | Inr st' \<Rightarrow> datatype_loop E ms st')"

definition validate_datatype :: "'f pandas \<Rightarrow> 'f DataCleaning \<Rightarrow> error + 'f DataCleaning" where
  "validate_datatype E c =
     (case datatype_loop E (meta_data_table c) (df c, logged c) of
        Inl e \<Rightarrow> Inl e
      | Inr st \<Rightarrow> Inr (c\<lparr>df := fst st, logged := snd st\<rparr>))"

subsection \<open>The flexible rules\<close>

text \<open>\<^verbatim>\<open>df[mask]\<close> for a mask computed on the whole column.\<close>

definition mask_filter :: "('f row \<Rightarrow> error + bool) \<Rightarrow> 'f dataframe \<Rightarrow> error + 'f dataframe" where
  "mask_filter p d =
     (case map_result p (rows d) of
        Inl e \<Rightarrow> Inl e
      | Inr keep \<Rightarrow> Inr (d\<lparr>rows := map fst (filter snd (zip (rows d) keep))\<rparr>))"

fun str_le :: "string \<Rightarrow> string \<Rightarrow> bool" where
  "str_le [] t = True"
| "str_le (a # s) [] = False"
| "str_le (a # s) (b # t) =
     ((of_char a :: nat) < of_char b \<or> (a = b \<and> str_le s t))"

text \<open>
  \<open>a <= b\<close> on two objects as a column comparison makes it: a missing value compares
  false, numbers compare as numbers, strings as strings, timestamps as timestamps (a
  string against a timestamp is parsed first), anything else raises \<^verbatim>\<open>TypeError\<close>.
\<close>

definition le_cells :: "'f pandas \<Rightarrow> 'f cell \<Rightarrow> 'f cell \<Rightarrow> error + bool" where
  "le_cells E a b =
     (if isna a \<or> isna b then Inr False
      else case (a, b) of
        (IntV x, IntV y) \<Rightarrow> Inr (x \<le> y)
      | (IntV x, FloatV y) \<Rightarrow> Inr (float_le E (float_of_int E x) y)
      | (FloatV x, IntV y) \<Rightarrow> Inr (float_le E x (float_of_int E y))
      | (FloatV x, FloatV y) \<Rightarrow> Inr (float_le E x y)
      | (StrV x, StrV y) \<Rightarrow> Inr (str_le x y)
      | (DateV x, DateV y) \<Rightarrow> Inr (x \<le> y)
      | (DateV x, StrV y) \<Rightarrow>
          (case parse_timestamp E y of
             Some t \<Rightarrow> Inr (x \<le> t) | None \<Rightarrow> Inl (TypeError ''Invalid comparison''))
      | (StrV x, DateV y) \<Rightarrow>
          (case parse_timestamp E x of
             Some t \<Rightarrow> Inr (t \<le> y) | None \<Rightarrow> Inl (TypeError ''Invalid comparison''))
      | _ \<Rightarrow> Inl (TypeError ''comparison not supported between these instances''))"

definition range_step :: "'f pandas \<Rightarrow> 'f range_rule \<Rightarrow> 'f dataframe \<Rightarrow> error + 'f dataframe" where
  "range_step E rule d =
     (let col = range_col rule in
      if col \<notin> set (columns d) then Inr d
      else if range_type rule = Some ''date_not_future'' then
        mask_filter (\<lambda>r. le_cells E (r col) (DateV (today E))) d
      else
        (case (case range_min rule of
                 None \<Rightarrow> Inr d
               | Some lo \<Rightarrow> mask_filter (\<lambda>r. le_cells E lo (r col)) d) of
           Inl e \<Rightarrow> Inl e
         | Inr d1 \<Rightarrow>
             (case range_max rule of
                None \<Rightarrow> Inr d1
              | Some hi \<Rightarrow> mask_filter (\<lambda>r. le_cells E (r col) hi) d1)))"

fun ranges_loop :: "'f pandas \<Rightarrow> 'f range_rule list \<Rightarrow> 'f dataframe \<Rightarrow> error + 'f dataframe" where
  "ranges_loop E [] d = Inr d"
| "ranges_loop E (rule # rules) d =
     (case range_step E rule d of Inl e \<Rightarrow> Inl e | Inr d' \<Rightarrow> ranges_loop E rules d')"

definition apply_ranges :: "'f pandas \<Rightarrow> 'f DataCleaning \<Rightarrow> error + 'f DataCleaning" where
  "apply_ranges E c =
     (case ranges_loop E (ranges (flex_rules c)) (df c) of
        Inl e \<Rightarrow> Inl e | Inr d \<Rightarrow> Inr (c\<lparr>df := d\<rparr>))"

subsection \<open>Regex, defaults, mappings and custom checks\<close>

text \<open>
  \<^verbatim>\<open>apply_regex\<close>: the mask is \<^verbatim>\<open>df[col].astype(str).str.match(pattern, na=False)\<close>.
\<close>

fun regex_loop :: "'f pandas \<Rightarrow> (string \<times> regex) list \<Rightarrow> 'f dataframe \<Rightarrow> 'f dataframe" where
  "regex_loop E [] d = d"
| "regex_loop E ((col, pattern) # rules) d =
     regex_loop E rules
       (if col \<in> set (columns d)
        then d\<lparr>rows := filter (\<lambda>r. re_match pattern (py_str E (r col))) (rows d)\<rparr>
        else d)"

definition apply_regex :: "'f pandas \<Rightarrow> 'f DataCleaning \<Rightarrow> 'f DataCleaning" where
  "apply_regex E c = c\<lparr>df := regex_loop E (regex_rules (flex_rules c)) (df c)\<rparr>"

text \<open>\<^verbatim>\<open>apply_defaults\<close>: \<^verbatim>\<open>df[col] = df[col].fillna(val)\<close>.\<close>

fun defaults_loop :: "(string \<times> 'f cell) list \<Rightarrow> 'f dataframe \<Rightarrow> 'f dataframe" where
  "defaults_loop [] d = d"
| "defaults_loop ((col, val) # rules) d =
     defaults_loop rules
       (if col \<in> set (columns d)
        then d\<lparr>rows := map (\<lambda>r. r(col := if isna (r col) then val else r col)) (rows d)\<rparr>
        else d)"

definition apply_defaults :: "'f DataCleaning \<Rightarrow> 'f DataCleaning" where
  "apply_defaults c = c\<lparr>df := defaults_loop (defaults (flex_rules c)) (df c)\<rparr>"

text \<open>\<^verbatim>\<open>name.replace(pat, "")\<close> for a pattern that is not empty.\<close>

function str_remove :: "string \<Rightarrow> string \<Rightarrow> string" where
  "str_remove pat [] = []"
| "str_remove pat (c # cs) =
     (if pat \<noteq> [] \<and> take (length pat) (c # cs) = pat
      then str_remove pat (drop (length pat) (c # cs))
      else c # str_remove pat cs)"
  by pat_completeness auto
termination
  by (relation "measure (\<lambda>(pat, s). length s)") (auto simp: neq_Nil_conv)

text \<open>\<^verbatim>\<open>Series.replace(mapping_dict)\<close>; the keys of a JSON object are strings.\<close>

definition replace_value :: "(string \<times> 'f cell) list \<Rightarrow> 'f cell \<Rightarrow> 'f cell" where
  "replace_value mapping_dict v =
     (case v of
        StrV s \<Rightarrow> (case map_of mapping_dict s of Some w \<Rightarrow> w | None \<Rightarrow> v)
      | _ \<Rightarrow> v)"

fun mappings_loop ::
  "(string \<times> (string \<times> 'f cell) list) list \<Rightarrow> 'f dataframe \<Rightarrow> 'f dataframe" where
  "mappings_loop [] d = d"
| "mappings_loop ((mapping_name, mapping_dict) # rules) d =
     mappings_loop rules
       (let col = str_remove ''_fix'' mapping_name in
        if col \<in> set (columns d)
        then d\<lparr>rows := map (\<lambda>r. r(col := replace_value mapping_dict (r col))) (rows d)\<rparr>
        else d)"

definition apply_mappings :: "'f DataCleaning \<Rightarrow> 'f DataCleaning" where
  "apply_mappings c = c\<lparr>df := mappings_loop (mappings (flex_rules c)) (df c)\<rparr>"

text \<open>\<^verbatim>\<open>apply_custom_udfs\<close>: the mask is \<^verbatim>\<open>df[col].apply(func)\<close>.\<close>

fun udfs_loop ::
  "'f pandas \<Rightarrow> (string \<times> string) list \<Rightarrow> 'f dataframe \<times> string list
     \<Rightarrow> error + 'f dataframe \<times> string list" where
  "udfs_loop E [] st = Inr st"
| "udfs_loop E ((col, udf_name) # rules) st =
     (if col \<notin> set (columns (fst st)) then udfs_loop E rules st
      else case UDF_REGISTRY udf_name of
        Some func \<Rightarrow>
          (case mask_filter (\<lambda>r. func E (r col)) (fst st) of
             Inl e \<Rightarrow> Inl e
           | Inr d \<Rightarrow> udfs_loop E rules (d, snd st))
      | None \<Rightarrow>
          udfs_loop E rules (fst st, snd st @ [''UDF '' @ udf_name @ '' not found in registry'']))"

definition apply_custom_udfs :: "'f pandas \<Rightarrow> 'f DataCleaning \<Rightarrow> error + 'f DataCleaning" where
  "apply_custom_udfs E c =
     (case udfs_loop E (custom_checks (flex_rules c)) (df c, logged c) of
        Inl e \<Rightarrow> Inl e
      | Inr st \<Rightarrow> Inr (c\<lparr>df := fst st, logged := snd st\<rparr>))"

subsection \<open>The constructor and the chain of \<^verbatim>\<open>ingest_to_silver\<close>\<close>

text \<open>\<^verbatim>\<open>Path(df_path).name.split('_')[-1]\<close>.\<close>

definition after_last :: "char \<Rightarrow> string \<Rightarrow> string" where
  "after_last sep s = rev (takeWhile (\<lambda>c. c \<noteq> sep) (rev s))"

definition table_of_path :: "string \<Rightarrow> string" where
  "table_of_path df_path = after_last CHR ''_'' (after_last CHR ''/'' df_path)"

text \<open>
  \<^verbatim>\<open>DataCleaning(df_path, meta_data_path, rules_path)\<close>. Reading the files is the boundary
  of the model: the constructor receives the frame that \<^verbatim>\<open>read_csv\<close> gives for
  \<open>df_path\<close>, its labels stripped, the rows of the metadata file, and the rule bundle if
  the rules file is named and exists.
\<close>

definition new_DataCleaning ::
  "string \<Rightarrow> 'f dataframe \<Rightarrow> meta_row list \<Rightarrow> 'f flex_rules option \<Rightarrow> error + 'f DataCleaning" where
  "new_DataCleaning df_path raw meta rules =
     (let name = table_of_path df_path;
          table = filter (\<lambda>m. md_table_name m = name) meta in
      if table = [] then
        Inl (ValueError (''No metadata found for table '' @ [CHR 0x27] @ name @ [CHR 0x27]))
      else Inr \<lparr>df = raw, table_name = name, meta_data_table = table,
             flex_rules = (case rules of Some b \<Rightarrow> b | None \<Rightarrow> no_rules), logged = []\<rparr>)"

definition bind :: "error + 'a \<Rightarrow> ('a \<Rightarrow> error + 'b) \<Rightarrow> error + 'b" where
  "bind x f = (case x of Inl e \<Rightarrow> Inl e | Inr v \<Rightarrow> f v)"

text \<open>The stages after the constructor, in the order in which \<^verbatim>\<open>ingest_to_silver\<close> chains
  them.\<close>

definition run_stages :: "'f pandas \<Rightarrow> 'f DataCleaning \<Rightarrow> error + 'f DataCleaning" where
  "run_stages E c0 =
     bind (validate_primary_keys c0) (\<lambda>c1.
     bind (validate_non_nulls c1) (\<lambda>c2.
     bind (validate_unique c2) (\<lambda>c3.
     bind (validate_datatype E c3) (\<lambda>c4.
     bind (apply_ranges E (apply_mappings (apply_defaults c4))) (\<lambda>c7.
     apply_custom_udfs E (apply_regex E c7))))))"

definition clean_file ::
  "'f pandas \<Rightarrow> string \<Rightarrow> 'f dataframe \<Rightarrow> meta_row list \<Rightarrow> 'f flex_rules option
     \<Rightarrow> error + 'f DataCleaning" where
  "clean_file E df_path raw meta rules =
     bind (new_DataCleaning df_path raw meta rules) (run_stages E)"

text \<open>
  An environment for the examples. Its floats are whole numbers only, it reads the
  decimal integers and no dates, and \<open>float_log1p\<close> is right at 0, where the examples
  use it.
\<close>

definition int_of_digits :: "string \<Rightarrow> int" where
  "int_of_digits s = foldl (\<lambda>n c. 10 * n + digit_val c) 0 s"

definition sample_pandas :: "int pandas" where
  "sample_pandas = \<lparr>
     parse_number = (\<lambda>s. if s \<noteq> [] \<and> list_all is_digit s then IntV (int_of_digits s) else NaN),
     parse_timestamp = (\<lambda>s. None),
     float_of_int = (\<lambda>i. i),
     int_of_float = Some,
     ns_of_float = Some,
     float_le = (\<le>),
     float_mul = (*),
     float_log1p = (\<lambda>x. 0),
     repr_float = (\<lambda>x. str_int x @ ''.0''),
     repr_timestamp = str_int,
     repr_list = concat,
     year_of = (\<lambda>t. 1970),
     today = 0,
     utcnow_year = 2026,
     utcnow_iso = ''2026-01-01T00:00:00Z''\<rparr>"

text \<open>A file whose only record has no publisher, a column that is declared non-nullable
  and has a default.\<close>

definition order_meta :: "meta_row list" where
  "order_meta =
     [\<lparr>md_table_name = ''books'', column_name = ''id'', PK = 1, NON_NULLABLE = 1,
        UNIQUE = 0, dtype = ''string''\<rparr>,
      \<lparr>md_table_name = ''books'', column_name = ''publisher'', PK = 0, NON_NULLABLE = 1,
        UNIQUE = 0, dtype = ''string''\<rparr>]"

definition order_frame :: "'f dataframe" where
  "order_frame = \<lparr>columns = [''id'', ''publisher''],
     rows = [(\<lambda>_. NaN)(''id'' := StrV ''a1'')]\<rparr>"

definition order_rules :: "'f flex_rules" where
  "order_rules = no_rules\<lparr>defaults := [(''publisher'', StrV ''Unknown'')]\<rparr>"

text \<open>A frame of codes under the rule that the code match \<^verbatim>\<open>\d{3}\<close>.\<close>

definition three_digits :: regex where
  "three_digits = Seq Digit (Seq Digit Digit)"

definition code_cleaner :: "'f DataCleaning" where
  "code_cleaner = \<lparr>df = \<lparr>columns = [''code''],
       rows = [(\<lambda>_. NaN)(''code'' := StrV ''1234''),
               (\<lambda>_. NaN)(''code'' := StrV ''123''),
               (\<lambda>_. NaN)(''code'' := StrV ''12a''),
               (\<lambda>_. NaN)]\<rparr>,
     table_name = ''codes'', meta_data_table = [],
     flex_rules = no_rules\<lparr>regex_rules := [(''code'', three_digits)]\<rparr>, logged = []\<rparr>"

subsection \<open>What the coercion loop does to one cell\<close>

text \<open>
  The words of the specification for one declared column: its type is one of the six
  typed names; the coerced value is what \<^verbatim>\<open>to_numeric\<close> or \<^verbatim>\<open>to_datetime\<close> gives; the
  cell costs its record when the coercion failed and the cell was not null before; the
  cast cell is what the column holds afterwards.
\<close>

definition typed :: "meta_row \<Rightarrow> bool" where
  "typed m = (lower (dtype m) \<in> {''int'', ''integer'', ''float'', ''double'', ''date'', ''datetime''})"

definition coerced :: "'f pandas \<Rightarrow> meta_row \<Rightarrow> 'f cell \<Rightarrow> 'f cell" where
  "coerced E m v =
     (if lower (dtype m) \<in> {''int'', ''integer'', ''float'', ''double''} then to_numeric E v
      else if lower (dtype m) \<in> {''date'', ''datetime''} then to_datetime E v
      else v)"

definition dropped_by :: "'f pandas \<Rightarrow> meta_row \<Rightarrow> 'f cell \<Rightarrow> bool" where
  "dropped_by E m v = (typed m \<and> isna (coerced E m v) \<and> notna v)"

definition cast_cell :: "'f pandas \<Rightarrow> meta_row \<Rightarrow> 'f cell \<Rightarrow> error + 'f cell" where
  "cast_cell E m v =
     (if lower (dtype m) \<in> {''int'', ''integer''} then astype_Int64 E (to_numeric E v)
      else if lower (dtype m) \<in> {''float'', ''double''} then astype_float E (to_numeric E v)
      else if lower (dtype m) \<in> {''date'', ''datetime''} then Inr (to_datetime E v)
      else Inr (StrV (py_str E v)))"

definition cast_value :: "'f pandas \<Rightarrow> meta_row \<Rightarrow> 'f cell \<Rightarrow> 'f cell" where
  "cast_value E m v = (case cast_cell E m v of Inr w \<Rightarrow> w | Inl e \<Rightarrow> v)"

text \<open>The casts of all declared columns that the frame has, on one record.\<close>

fun cast_row :: "'f pandas \<Rightarrow> string list \<Rightarrow> meta_row list \<Rightarrow> 'f row \<Rightarrow> 'f row" where
  "cast_row E cols [] r = r"
| "cast_row E cols (m # ms) r =
     cast_row E cols ms
       (if column_name m \<in> set cols
        then r(column_name m := cast_value E m (r (column_name m))) else r)"

definition missing_warnings :: "string list \<Rightarrow> meta_row list \<Rightarrow> string list" where
  "missing_warnings cols ms =
     map (\<lambda>m. missing_warning (column_name m)) (filter (\<lambda>m. column_name m \<notin> set cols) ms)"

text \<open>A cell that the coercion of its column leaves as it is and does not drop.\<close>

definition fixed :: "'f pandas \<Rightarrow> meta_row \<Rightarrow> 'f cell \<Rightarrow> bool" where
  "fixed E m v = (cast_cell E m v = Inr v \<and> \<not> dropped_by E m v)"

text \<open>The number of records of a result, if there is one.\<close>

definition rows_out :: "error + 'f DataCleaning \<Rightarrow> nat option" where
  "rows_out res = (case res of Inr c \<Rightarrow> Some (length (rows (df c))) | Inl e \<Rightarrow> None)"

text \<open>
  A column of page counts read as strings, with a record that is not a number and one
  that is empty; the metadata also declares a column that the file does not have.
\<close>

definition pages_cleaner :: "'f DataCleaning" where
  "pages_cleaner = \<lparr>df = \<lparr>columns = [''pages''],
       rows = [(\<lambda>_. NaN)(''pages'' := StrV ''12''),
               (\<lambda>_. NaN)(''pages'' := StrV ''abc''),
               (\<lambda>_. NaN)]\<rparr>,
     table_name = ''books'',
     meta_data_table =
       [\<lparr>md_table_name = ''books'', column_name = ''pages'', PK = 0, NON_NULLABLE = 0,
          UNIQUE = 0, dtype = ''int''\<rparr>,
        \<lparr>md_table_name = ''books'', column_name = ''year'', PK = 0, NON_NULLABLE = 0,
          UNIQUE = 0, dtype = ''int''\<rparr>],
     flex_rules = no_rules, logged = []\<rparr>"

text \<open>
  A column of page counts with an empty cell (so a float column, 5.0 and \<open>NaN\<close>), declared
  twice in the metadata: as an integer, then as a string.
\<close>

definition twice_cleaner :: "int DataCleaning" where
  "twice_cleaner = \<lparr>df = \<lparr>columns = [''pages''],
       rows = [(\<lambda>_. NaN)(''pages'' := FloatV 5), (\<lambda>_. NaN)]\<rparr>,
     table_name = ''books'',
     meta_data_table =
       [\<lparr>md_table_name = ''books'', column_name = ''pages'', PK = 0, NON_NULLABLE = 0,
          UNIQUE = 0, dtype = ''int''\<rparr>,
        \<lparr>md_table_name = ''books'', column_name = ''pages'', PK = 0, NON_NULLABLE = 0,
          UNIQUE = 0, dtype = ''string''\<rparr>],
     flex_rules = no_rules, logged = []\<rparr>"

section \<open>The Gold transformer\<close>

text \<open>
  The state of a \<^verbatim>\<open>BooksGoldTransformer\<close>: the frame read from the Silver file, the
  table name, the language map (empty when the JSON file is missing), and what
  \<^verbatim>\<open>drop_invalid\<close> has logged.
\<close>

record 'f BooksGoldTransformer =
  gold_df :: "'f dataframe"
  gold_table_name :: string
  language_map :: "(string \<times> 'f cell) list"
  gold_logged :: "string list"

definition is_str :: "'f cell \<Rightarrow> bool" where
  "is_str v = (case v of StrV s \<Rightarrow> True | _ \<Rightarrow> False)"

text \<open>\<^verbatim>\<open>df[col]\<close> raises \<^verbatim>\<open>KeyError\<close> when \<open>col\<close> is not a column.\<close>

definition require_column :: "string \<Rightarrow> 'f dataframe \<Rightarrow> error + unit" where
  "require_column col d = (if col \<in> set (columns d) then Inr () else Inl (KeyError col))"

text \<open>
  \<^verbatim>\<open>df[col].str\<close>: the accessor is refused on a column that is not of the object dtype. A
  column read from a CSV file is of the object dtype when one of its cells is a string,
  or when the file has no record.
\<close>

definition str_accessor :: "string \<Rightarrow> 'f dataframe \<Rightarrow> error + unit" where
  "str_accessor col d =
     (if col \<notin> set (columns d) then Inl (KeyError col)
      else if rows d = [] \<or> list_ex (\<lambda>r. is_str (r col)) (rows d) then Inr ()
      else Inl (AttributeError ''Can only use .str accessor with string values!''))"

text \<open>A method of the accessor gives \<open>NaN\<close> on a cell that is not a string.\<close>

definition on_str :: "(string \<Rightarrow> 'f cell) \<Rightarrow> 'f cell \<Rightarrow> 'f cell" where
  "on_str f v = (case v of StrV s \<Rightarrow> f s | _ \<Rightarrow> NaN)"

text \<open>\<^verbatim>\<open>df[name] = values\<close>: a new column goes last.\<close>

definition add_column :: "string \<Rightarrow> ('f row \<Rightarrow> 'f cell) \<Rightarrow> 'f dataframe \<Rightarrow> 'f dataframe" where
  "add_column name f d =
     \<lparr>columns = (if name \<in> set (columns d) then columns d else columns d @ [name]),
      rows = map (\<lambda>r. r(name := f r)) (rows d)\<rparr>"

text \<open>The patterns \<^verbatim>\<open>r"\((.*?)\)"\<close> and \<^verbatim>\<open>r"\s*\(.*?\)$"\<close> of the title.\<close>

definition series_pattern :: regex where
  "series_pattern = Seq (Chr CHR ''('') (Seq (Lazy Dot) (Chr CHR '')''))"

definition title_suffix_pattern :: regex where
  "title_suffix_pattern =
     Seq (Star Space) (Seq (Chr CHR ''('') (Seq (Lazy Dot) (Seq (Chr CHR '')'') Eol)))"

text \<open>\<^verbatim>\<open>str.extract\<close> gives the text of the group, the match without its parentheses.\<close>

definition extract_series :: "string \<Rightarrow> 'f cell" where
  "extract_series s =
     (case re_search series_pattern s of Some m \<Rightarrow> StrV (butlast (tl m)) | None \<Rightarrow> NaN)"

definition title_step :: "'f dataframe \<Rightarrow> error + 'f dataframe" where
  "title_step d =
     bind (str_accessor ''title'' d) (\<lambda>_.
       let d1 = add_column ''series'' (\<lambda>r. on_str extract_series (r ''title'')) d in
       Inr (add_column ''title''
              (\<lambda>r. on_str (\<lambda>s. StrV (re_sub title_suffix_pattern s)) (r ''title'')) d1))"

text \<open>\<^verbatim>\<open>s.split("/")\<close>.\<close>

fun split_on :: "char \<Rightarrow> string \<Rightarrow> string list" where
  "split_on sep [] = [[]]"
| "split_on sep (c # cs) =
     (if c = sep then [] # split_on sep cs
      else case split_on sep cs of
        w # ws \<Rightarrow> (c # w) # ws
      | [] \<Rightarrow> [[c]])"

definition authors_step :: "'f dataframe \<Rightarrow> error + 'f dataframe" where
  "authors_step d =
     bind (str_accessor ''authors'' d) (\<lambda>_.
       let d1 = add_column ''primary_author''
                  (\<lambda>r. on_str (\<lambda>s. StrV (hd (split_on CHR ''/'' s))) (r ''authors'')) d in
       Inr (add_column ''all_authors''
              (\<lambda>r. on_str (\<lambda>s. ListV (split_on CHR ''/'' s)) (r ''authors'')) d1))"

text \<open>\<^verbatim>\<open>s.zfill(width)\<close>: the zeros go behind a sign.\<close>

definition zfill :: "nat \<Rightarrow> string \<Rightarrow> string" where
  "zfill width s =
     (if width \<le> length s then s
      else case s of
        c # cs \<Rightarrow>
          if c = CHR ''+'' \<or> c = CHR ''-'' then c # replicate (width - length s) CHR ''0'' @ cs
          else replicate (width - length s) CHR ''0'' @ s
      | [] \<Rightarrow> replicate width CHR ''0'')"

text \<open>
  The identifiers are written as padded strings, both masks are computed, and
  \<^verbatim>\<open>drop_invalid\<close> keeps the records that pass both, logging how many it drops.
\<close>

definition isbn_step ::
  "'f pandas \<Rightarrow> 'f dataframe \<times> string list \<Rightarrow> error + 'f dataframe \<times> string list" where
  "isbn_step E st =
     (let d = fst st; lg = snd st in
      bind (require_column ''isbn'' d) (\<lambda>_.
        let d1 = add_column ''isbn'' (\<lambda>r. StrV (zfill 10 (py_str E (r ''isbn'')))) d in
        bind (require_column ''isbn13'' d1) (\<lambda>_.
          let d2 = add_column ''isbn13'' (\<lambda>r. StrV (zfill 13 (py_str E (r ''isbn13'')))) d1 in
          bind (map_result (\<lambda>r. validate_isbn10_checksum E (r ''isbn'')) (rows d2)) (\<lambda>mask10.
            bind (map_result (\<lambda>r. validate_isbn13_checksum E (r ''isbn13'')) (rows d2)) (\<lambda>mask13.
              let keep = map (\<lambda>(a, b). a \<and> b) (zip mask10 mask13);
                  dropped = length (filter Not keep) in
              Inr (d2\<lparr>rows := map fst (filter snd (zip (rows d2) keep))\<rparr>,
                   if dropped = 0 then lg
                   else lg @ [''Dropped '' @ str_int (int dropped) @ '' rows invalid ISBN'']))))))"

text \<open>\<^verbatim>\<open>df["publisher"].apply(clean_publisher_name)\<close>.\<close>

definition publisher_step :: "'f dataframe \<Rightarrow> error + 'f dataframe" where
  "publisher_step d =
     bind (require_column ''publisher'' d) (\<lambda>_.
       bind (map_result (\<lambda>r. clean_publisher_name (r ''publisher'')) (rows d)) (\<lambda>names.
         Inr (d\<lparr>rows := map (\<lambda>(r, name). r(''publisher'' := StrV name)) (zip (rows d) names)\<rparr>)))"

text \<open>The age is the year of the clock minus the year of the date; no date, no age.\<close>

definition book_age_step :: "'f pandas \<Rightarrow> 'f dataframe \<Rightarrow> error + 'f dataframe" where
  "book_age_step E d =
     bind (require_column ''publication_date'' d) (\<lambda>_.
       Inr (add_column ''book_age''
              (\<lambda>r. case to_datetime E (r ''publication_date'') of
                      DateV t \<Rightarrow> IntV (utcnow_year E - year_of E t)
                    | _ \<Rightarrow> NaN) d))"

text \<open>\<^verbatim>\<open>np.log1p\<close> and the product, on numbers; a null gives a null, a string raises.\<close>

definition as_float :: "'f pandas \<Rightarrow> 'f cell \<Rightarrow> 'f option" where
  "as_float E v =
     (case v of IntV i \<Rightarrow> Some (float_of_int E i) | FloatV x \<Rightarrow> Some x | _ \<Rightarrow> None)"

definition log1p_cell :: "'f pandas \<Rightarrow> 'f cell \<Rightarrow> error + 'f cell" where
  "log1p_cell E v =
     (if isna v then Inr NaN
      else case as_float E v of
        Some x \<Rightarrow> Inr (FloatV (float_log1p E x))
      | None \<Rightarrow> Inl (TypeError ''loop of ufunc does not support this argument''))"

definition mul_cells :: "'f pandas \<Rightarrow> 'f cell \<Rightarrow> 'f cell \<Rightarrow> error + 'f cell" where
  "mul_cells E a b =
     (if (isna a \<or> as_float E a \<noteq> None) \<and> (isna b \<or> as_float E b \<noteq> None) then
        (case (as_float E a, as_float E b) of
           (Some x, Some y) \<Rightarrow> Inr (FloatV (float_mul E x y))
         | _ \<Rightarrow> Inr NaN)
      else Inl (TypeError ''unsupported operand types for *''))"

definition score_step :: "'f pandas \<Rightarrow> 'f dataframe \<Rightarrow> error + 'f dataframe" where
  "score_step E d =
     bind (require_column ''average_rating'' d) (\<lambda>_.
       bind (require_column ''ratings_count'' d) (\<lambda>_.
         bind (map_result (\<lambda>r. log1p_cell E (r ''ratings_count'')) (rows d)) (\<lambda>logs.
           bind (map_result (\<lambda>(r, l). mul_cells E (r ''average_rating'') l) (zip (rows d) logs))
             (\<lambda>scores.
               Inr \<lparr>columns = (if ''rating_popularity_score'' \<in> set (columns d) then columns d
                               else columns d @ [''rating_popularity_score'']),
                    rows = map (\<lambda>(r, x). r(''rating_popularity_score'' := x))
                             (zip (rows d) scores)\<rparr>))))"

text \<open>\<^verbatim>\<open>map_column("language_code", language_map)\<close> and the renaming of the column.\<close>

definition language_step :: "(string \<times> 'f cell) list \<Rightarrow> 'f dataframe \<Rightarrow> 'f dataframe" where
  "language_step mapping d =
     (if ''language_code'' \<in> set (columns d)
      then \<lparr>columns = map (\<lambda>k. if k = ''language_code'' then ''language'' else k) (columns d),
            rows = map (\<lambda>r. r(''language'' := replace_value mapping (r ''language_code'')))
                     (rows d)\<rparr>
      else d)"

definition transform ::
  "'f pandas \<Rightarrow> 'f BooksGoldTransformer \<Rightarrow> error + 'f BooksGoldTransformer" where
  "transform E t =
     bind (title_step (gold_df t)) (\<lambda>d1.
     bind (authors_step d1) (\<lambda>d2.
     bind (isbn_step E (d2, gold_logged t)) (\<lambda>st3.
     bind (publisher_step (fst st3)) (\<lambda>d4.
     bind (book_age_step E d4) (\<lambda>d5.
     bind (score_step E d5) (\<lambda>d6.
       Inr (t\<lparr>gold_df := language_step (language_map t) d6, gold_logged := snd st3\<rparr>)))))))"

text \<open>A record passes the ISBN validation when both checks accept its padded identifiers.\<close>

definition passes_isbn :: "'f pandas \<Rightarrow> 'f row \<Rightarrow> bool" where
  "passes_isbn E r =
     (validate_isbn10_checksum E (StrV (zfill 10 (py_str E (r ''isbn'')))) = Inr True
      \<and> validate_isbn13_checksum E (StrV (zfill 13 (py_str E (r ''isbn13'')))) = Inr True)"

definition gold_rows_out :: "error + 'f BooksGoldTransformer \<Rightarrow> nat option" where
  "gold_rows_out res =
     (case res of Inr t \<Rightarrow> Some (length (rows (gold_df t))) | Inl e \<Rightarrow> None)"

text \<open>
  Two Silver files of two books. In the first the book with the wrong ISBN-10 has no
  publisher; in the second it is the book with the right one.
\<close>

definition gold_columns :: "string list" where
  "gold_columns = [''title'', ''authors'', ''average_rating'', ''isbn'', ''isbn13'',
     ''language_code'', ''ratings_count'', ''publication_date'', ''publisher'']"

definition book_row :: "string \<Rightarrow> int \<Rightarrow> int cell \<Rightarrow> int row" where
  "book_row name isbn publisher =
     (\<lambda>_. NaN)(''title'' := StrV name, ''authors'' := StrV ''Frank Herbert/Brian Herbert'',
       ''average_rating'' := FloatV 4, ''isbn'' := IntV isbn, ''isbn13'' := IntV 9780306406157,
       ''language_code'' := StrV ''eng'', ''ratings_count'' := IntV 0,
       ''publication_date'' := StrV ''unknown'', ''publisher'' := publisher)"

definition gold_dropped :: "int BooksGoldTransformer" where
  "gold_dropped = \<lparr>gold_df = \<lparr>columns = gold_columns,
       rows = [book_row ''Dune (Dune Chronicles)'' 306406152 (StrV ''Ace Books''),
               book_row ''Dune Messiah'' 306406153 NaN]\<rparr>,
     gold_table_name = ''books'', language_map = [(''eng'', StrV ''English'')],
     gold_logged = []\<rparr>"

definition gold_kept :: "int BooksGoldTransformer" where
  "gold_kept = \<lparr>gold_df = \<lparr>columns = gold_columns,
       rows = [book_row ''Dune (Dune Chronicles)'' 306406152 NaN,
               book_row ''Dune Messiah'' 306406153 (StrV ''Ace Books'')]\<rparr>,
     gold_table_name = ''books'', language_map = [(''eng'', StrV ''English'')],
     gold_logged = []\<rparr>"

section \<open>Verified properties\<close>

subsection \<open>The ISBN-10 predicate\<close>

text \<open>
  C7. \<^verbatim>\<open>validate_isbn10_checksum\<close> accepts the valid code 0306406152 and rejects the
  mutation 0306406153. The code 080442957X has the weighted sum 199, so its check value
  is 10 and its last character is the sentinel X: a valid ISBN-10. The predicate rejects
  it, because the pattern of ten digits refuses the X before the check is computed.
\<close>

theorem isbn10_known_codes:
  "validate_isbn10_checksum E (StrV ''0306406152'') = Inr True
   \<and> validate_isbn10_checksum E (StrV ''0306406153'') = Inr False
   \<and> (11 - isbn10_total ''080442957X'' mod 11) mod 11 = 10
   \<and> last ''080442957X'' = CHR ''X''
   \<and> validate_isbn10_checksum E (StrV ''080442957X'') = Inr False"
  by code_simp

subsection \<open>Publisher names\<close>

text \<open>
  C8, as the spec states it: \<^verbatim>\<open>clean_publisher_name\<close> maps "Random House, Inc." to
  "Random House". It does not.
\<close>

theorem clean_publisher_random_house_counterexample:
  "clean_publisher_name (StrV ''Random House, Inc.'') \<noteq> Inr ''Random House''"
  by code_simp

text \<open>
  C8, amended. The name is lowered, each word of \<open>formal_words\<close> is cut once, in the order
  of the list, where it ends the name (with the white space around it), the rest is
  stripped and title-cased. Punctuation is not touched: "Random House, Inc." becomes
  "Random House," with its comma, and only a name without the comma, "Random House Inc.",
  becomes "Random House".
\<close>

theorem clean_publisher_random_house:
  "clean_publisher_name (StrV s) =
     Inr (title (strip (foldl (\<lambda>n word. re_sub (suffix_pattern word) n) (lower s) formal_words)))
   \<and> clean_publisher_name (StrV ''Random House, Inc.'') = Inr ''Random House,''
   \<and> clean_publisher_name (StrV ''Random House Inc.'') = Inr ''Random House''"
proof -
  have "clean_publisher_name (StrV ''Random House, Inc.'') = Inr ''Random House,''"
    by code_simp
  moreover have "clean_publisher_name (StrV ''Random House Inc.'') = Inr ''Random House''"
    by code_simp
  ultimately show ?thesis
    by (simp add: clean_publisher_name_def)
qed

subsection \<open>Dropping duplicates\<close>

lemma drop_seen_subset: "set (drop_seen cols seen rs) \<subseteq> set rs"
  by (induction rs arbitrary: seen) auto

lemma length_drop_seen: "length (drop_seen cols seen rs) \<le> length rs"
  by (induction rs arbitrary: seen) (auto intro: le_SucI)

lemma drop_seen_keys_fresh:
  "r \<in> set (drop_seen cols seen rs) \<Longrightarrow> map r cols \<notin> set seen"
proof (induction rs arbitrary: seen)
  case Nil
  then show ?case by simp
next
  case (Cons a rs)
  show ?case
  proof (cases "map a cols \<in> set seen")
    case True
    with Cons show ?thesis by simp
  next
    case False
    with Cons.prems have "r = a \<or> r \<in> set (drop_seen cols (map a cols # seen) rs)"
      by simp
    then show ?thesis
    proof
      assume "r = a"
      with False show ?thesis by simp
    next
      assume "r \<in> set (drop_seen cols (map a cols # seen) rs)"
      from Cons.IH [OF this] show ?thesis by simp
    qed
  qed
qed

lemma distinct_drop_seen: "distinct (map (\<lambda>r. map r cols) (drop_seen cols seen rs))"
  by (induction rs arbitrary: seen) (auto dest: drop_seen_keys_fresh)

lemma find_drop_seen:
  "find (\<lambda>r. map r cols = t) (drop_seen cols seen rs) =
     (if t \<in> set seen then None else find (\<lambda>r. map r cols = t) rs)"
  by (induction rs arbitrary: seen) auto

lemma length_drop_duplicates: "length (drop_duplicates cols rs) \<le> length rs"
  by (simp add: drop_duplicates_def length_drop_seen)

subsection \<open>The primary-key filter\<close>

text \<open>
  C2. When \<^verbatim>\<open>validate_primary_keys\<close> returns and some column is declared PK: no record
  of the output has a null in a PK column, no PK tuple occurs twice, and for every tuple
  the output record that carries it is the first record of the input, nulls removed, that
  carries it. When no column is declared PK the frame is unchanged and the warning is
  logged.
\<close>

theorem validate_primary_keys_spec:
  assumes "validate_primary_keys c = Inr c'"
  shows "if flagged PK (meta_data_table c) = []
         then df c' = df c \<and> logged c' = logged c @ [''No PK defined for '' @ table_name c]
         else (\<forall>r \<in> set (rows (df c')). \<forall>k \<in> set (flagged PK (meta_data_table c)). \<not> isna (r k))
            \<and> distinct (map (\<lambda>r. map r (flagged PK (meta_data_table c))) (rows (df c')))
            \<and> (\<forall>t. find (\<lambda>r. map r (flagged PK (meta_data_table c)) = t) (rows (df c')) =
                    find (\<lambda>r. map r (flagged PK (meta_data_table c)) = t)
                      (filter (all_notna (flagged PK (meta_data_table c))) (rows (df c))))
            \<and> columns (df c') = columns (df c) \<and> logged c' = logged c"
proof (cases "flagged PK (meta_data_table c) = []")
  case True
  with assms show ?thesis
    by (auto simp: validate_primary_keys_def warn_def)
next
  case False
  let ?pk = "flagged PK (meta_data_table c)"
  from assms False have c': "c' = set_rows (drop_duplicates ?pk (filter (all_notna ?pk) (rows (df c)))) c"
    by (auto simp: validate_primary_keys_def Let_def split: option.splits)
  have rows: "rows (df c') = drop_seen ?pk [] (filter (all_notna ?pk) (rows (df c)))"
    by (simp add: c' set_rows_def drop_duplicates_def)
  have "\<forall>r \<in> set (rows (df c')). \<forall>k \<in> set ?pk. \<not> isna (r k)"
    using drop_seen_subset [of ?pk "[]" "filter (all_notna ?pk) (rows (df c))"]
    unfolding rows by (auto simp: all_notna_def list_all_iff notna_def)
  moreover have "distinct (map (\<lambda>r. map r ?pk) (rows (df c')))"
    unfolding rows by (rule distinct_drop_seen)
  moreover have "\<forall>t. find (\<lambda>r. map r ?pk = t) (rows (df c')) =
      find (\<lambda>r. map r ?pk = t) (filter (all_notna ?pk) (rows (df c)))"
    unfolding rows by (simp add: find_drop_seen)
  moreover have "columns (df c') = columns (df c) \<and> logged c' = logged c"
    by (simp add: c' set_rows_def)
  ultimately show ?thesis using False by simp
qed

lemma pk_cleaner_filtered:
  "validate_primary_keys pk_cleaner =
     Inr (set_rows [(\<lambda>_. NaN)(''id'' := StrV ''a1'', ''title'' := StrV ''x''),
                    (\<lambda>_. NaN)(''id'' := StrV ''b2'', ''title'' := StrV ''w'')] pk_cleaner)"
  by (simp add: validate_primary_keys_def pk_cleaner_def pk_frame_def pk_meta_def flagged_def
      missing_column_def all_notna_def notna_def drop_duplicates_def set_rows_def)

theorem validate_primary_keys_spec_witness:
  "validate_primary_keys (pk_cleaner :: 'f DataCleaning) =
     Inr (set_rows [(\<lambda>_. NaN)(''id'' := StrV ''a1'', ''title'' := StrV ''x''),
                    (\<lambda>_. NaN)(''id'' := StrV ''b2'', ''title'' := StrV ''w'')] pk_cleaner)
   \<and> flagged PK (meta_data_table (pk_cleaner :: 'f DataCleaning)) = [''id'']
   \<and> distinct (map (\<lambda>r. map r [''id''])
        (rows (df (set_rows [(\<lambda>_. NaN)(''id'' := StrV ''a1'', ''title'' := StrV ''x''),
                             (\<lambda>_. NaN)(''id'' := StrV ''b2'', ''title'' := StrV ''w'')]
                     (pk_cleaner :: 'f DataCleaning)))))"
proof -
  have pk: "flagged PK (meta_data_table (pk_cleaner :: 'f DataCleaning)) = [''id'']"
    by (simp add: pk_cleaner_def pk_meta_def flagged_def)
  have run: "validate_primary_keys (pk_cleaner :: 'f DataCleaning) =
     Inr (set_rows [(\<lambda>_. NaN)(''id'' := StrV ''a1'', ''title'' := StrV ''x''),
                    (\<lambda>_. NaN)(''id'' := StrV ''b2'', ''title'' := StrV ''w'')] pk_cleaner)"
    by (rule pk_cleaner_filtered)
  from validate_primary_keys_spec [OF run] have
    "distinct (map (\<lambda>r. map r (flagged PK (meta_data_table (pk_cleaner :: 'f DataCleaning))))
        (rows (df (set_rows [(\<lambda>_. NaN)(''id'' := StrV ''a1'', ''title'' := StrV ''x''),
                             (\<lambda>_. NaN)(''id'' := StrV ''b2'', ''title'' := StrV ''w'')]
                     (pk_cleaner :: 'f DataCleaning)))))"
    by (simp add: pk)
  with pk run show ?thesis by simp
qed

subsection \<open>No stage adds a record\<close>

lemma map_result_length: "map_result f xs = Inr ys \<Longrightarrow> length ys = length xs"
  by (induction xs arbitrary: ys) (auto split: sum.splits)

lemma length_filter_zip: "length ys = length xs \<Longrightarrow> length (filter P (zip xs ys)) \<le> length xs"
  by (metis length_filter_le length_zip min.idem)

lemma coerce_column_length:
  assumes "coerce_column col coerce cast d = Inr d'"
  shows "length (rows d') \<le> length (rows d)"
  using assms
  by (auto simp: coerce_column_def split: sum.splits dest!: map_result_length intro: length_filter_zip)

lemma mask_filter_length:
  assumes "mask_filter p d = Inr d'"
  shows "length (rows d') \<le> length (rows d)"
  using assms
  by (auto simp: mask_filter_def split: sum.splits dest!: map_result_length intro: length_filter_zip)

lemma datatype_step_length:
  assumes "datatype_step E m st = Inr st'"
  shows "length (rows (fst st')) \<le> length (rows (fst st))"
  using assms
  by (auto simp: datatype_step_def Let_def split: if_splits sum.splits dest: coerce_column_length)

lemma datatype_loop_length:
  "datatype_loop E ms st = Inr st' \<Longrightarrow> length (rows (fst st')) \<le> length (rows (fst st))"
proof (induction ms arbitrary: st)
  case Nil
  then show ?case by simp
next
  case (Cons m ms)
  then obtain st1 where 1: "datatype_step E m st = Inr st1" and 2: "datatype_loop E ms st1 = Inr st'"
    by (auto split: sum.splits)
  from datatype_step_length [OF 1] Cons.IH [OF 2] show ?case by simp
qed

lemma validate_datatype_length:
  "validate_datatype E c = Inr c' \<Longrightarrow> length (rows (df c')) \<le> length (rows (df c))"
  by (auto simp: validate_datatype_def split: sum.splits dest: datatype_loop_length)

lemma validate_primary_keys_length:
  "validate_primary_keys c = Inr c' \<Longrightarrow> length (rows (df c')) \<le> length (rows (df c))"
  by (auto simp: validate_primary_keys_def Let_def set_rows_def warn_def
      split: if_splits option.splits
      intro: order_trans [OF length_drop_duplicates length_filter_le])

lemma validate_non_nulls_length:
  "validate_non_nulls c = Inr c' \<Longrightarrow> length (rows (df c')) \<le> length (rows (df c))"
  by (auto simp: validate_non_nulls_def Let_def set_rows_def split: if_splits option.splits)

lemma unique_loop_length:
  "unique_loop cols c = Inr c' \<Longrightarrow> length (rows (df c')) \<le> length (rows (df c))"
proof (induction cols arbitrary: c)
  case Nil
  then show ?case by simp
next
  case (Cons col cols)
  from Cons.prems have "unique_loop cols (set_rows (drop_duplicates [col] (rows (df c))) c) = Inr c'"
    by (auto split: option.splits)
  from Cons.IH [OF this] have "length (rows (df c')) \<le> length (drop_duplicates [col] (rows (df c)))"
    by (simp add: set_rows_def)
  with length_drop_duplicates [of "[col]" "rows (df c)"] show ?case by simp
qed

lemma validate_unique_length:
  "validate_unique c = Inr c' \<Longrightarrow> length (rows (df c')) \<le> length (rows (df c))"
  by (simp add: validate_unique_def unique_loop_length)

lemma defaults_loop_length: "length (rows (defaults_loop rules d)) = length (rows d)"
  by (induction rules d rule: defaults_loop.induct) auto

lemma mappings_loop_length: "length (rows (mappings_loop rules d)) = length (rows d)"
  by (induction rules d rule: mappings_loop.induct) (auto simp: Let_def)

lemma regex_loop_length: "length (rows (regex_loop E rules d)) \<le> length (rows d)"
proof (induction E rules d rule: regex_loop.induct)
  case (1 E d)
  then show ?case by simp
next
  case (2 E col pattern rules d)
  then show ?case
    by (auto intro: order_trans [OF _ length_filter_le])
qed

lemma range_step_length:
  "range_step E rule d = Inr d' \<Longrightarrow> length (rows d') \<le> length (rows d)"
  by (auto simp: range_step_def Let_def split: if_splits sum.splits option.splits
      dest!: mask_filter_length)

lemma ranges_loop_length:
  "ranges_loop E rules d = Inr d' \<Longrightarrow> length (rows d') \<le> length (rows d)"
proof (induction rules arbitrary: d)
  case Nil
  then show ?case by simp
next
  case (Cons rule rules)
  then obtain d1 where 1: "range_step E rule d = Inr d1" and 2: "ranges_loop E rules d1 = Inr d'"
    by (auto split: sum.splits)
  from range_step_length [OF 1] Cons.IH [OF 2] show ?case by simp
qed

lemma udfs_loop_length:
  "udfs_loop E rules st = Inr st' \<Longrightarrow> length (rows (fst st')) \<le> length (rows (fst st))"
proof (induction E rules st rule: udfs_loop.induct)
  case (1 E st)
  then show ?case by simp
next
  case (2 E col udf_name rules st)
  show ?case
  proof (cases "col \<notin> set (columns (fst st))")
    case True
    with 2 show ?thesis by simp
  next
    case present: False
    show ?thesis
    proof (cases "UDF_REGISTRY udf_name :: ('a pandas \<Rightarrow> 'a cell \<Rightarrow> error + bool) option")
      case None
      with 2 present show ?thesis by simp
    next
      case (Some func)
      with "2.prems" present obtain d where
        m: "mask_filter (\<lambda>r. func E (r col)) (fst st) = Inr d"
        and l: "udfs_loop E rules (d, snd st) = Inr st'"
        by (auto split: sum.splits)
      from "2.IH"(3) [OF present Some m l] mask_filter_length [OF m] show ?thesis by simp
    qed
  qed
qed

lemma apply_ranges_length:
  "apply_ranges E c = Inr c' \<Longrightarrow> length (rows (df c')) \<le> length (rows (df c))"
  by (auto simp: apply_ranges_def split: sum.splits dest: ranges_loop_length)

lemma apply_custom_udfs_length:
  "apply_custom_udfs E c = Inr c' \<Longrightarrow> length (rows (df c')) \<le> length (rows (df c))"
  by (auto simp: apply_custom_udfs_def split: sum.splits dest: udfs_loop_length)

lemma run_stages_length:
  assumes "run_stages E c0 = Inr c"
  shows "length (rows (df c)) \<le> length (rows (df c0))"
proof -
  from assms obtain c1 c2 c3 c4 c7 where
    1: "validate_primary_keys c0 = Inr c1" and
    2: "validate_non_nulls c1 = Inr c2" and
    3: "validate_unique c2 = Inr c3" and
    4: "validate_datatype E c3 = Inr c4" and
    7: "apply_ranges E (apply_mappings (apply_defaults c4)) = Inr c7" and
    9: "apply_custom_udfs E (apply_regex E c7) = Inr c"
    by (auto simp: run_stages_def bind_def split: sum.splits)
  have 56: "length (rows (df (apply_mappings (apply_defaults c4)))) = length (rows (df c4))"
    by (simp add: apply_mappings_def apply_defaults_def mappings_loop_length defaults_loop_length)
  have 8: "length (rows (df (apply_regex E c7))) \<le> length (rows (df c7))"
    by (simp add: apply_regex_def regex_loop_length)
  from validate_primary_keys_length [OF 1] validate_non_nulls_length [OF 2]
    validate_unique_length [OF 3] validate_datatype_length [OF 4] 56
    apply_ranges_length [OF 7] 8 apply_custom_udfs_length [OF 9]
  show ?thesis by linarith
qed

text \<open>
  C1. For every file that the cleaning chain of \<^verbatim>\<open>ingest_to_silver\<close> processes to the
  end, with any metadata and any rule bundle, the cleaned frame has at most as many
  records as the frame read from the file: every stage filters records or rewrites
  cells, none adds a record.
\<close>

theorem rows_out_le_rows_in:
  assumes "clean_file E df_path raw meta rules = Inr c"
  shows "length (rows (df c)) \<le> length (rows raw)"
proof -
  from assms obtain c0 where
    new: "new_DataCleaning df_path raw meta rules = Inr c0" and run: "run_stages E c0 = Inr c"
    by (auto simp: clean_file_def bind_def split: sum.splits)
  from new have "df c0 = raw"
    by (auto simp: new_DataCleaning_def Let_def split: if_splits)
  with run_stages_length [OF run] show ?thesis by simp
qed

lemmas stage_defs =
  clean_file_def new_DataCleaning_def table_of_path_def after_last_def bind_def run_stages_def
  validate_primary_keys_def validate_non_nulls_def validate_unique_def validate_datatype_def
  datatype_step_def coerce_column_def apply_defaults_def apply_mappings_def apply_ranges_def
  apply_regex_def apply_custom_udfs_def flagged_def missing_column_def all_notna_def notna_def
  drop_duplicates_def set_rows_def warn_def no_rules_def Let_def lower_def lower_char_def
  is_upper_def

lemma clean_file_pk_frame:
  "\<exists>c. clean_file sample_pandas ''2_bronze/goodreads/2024/raw_books'' pk_frame pk_meta None = Inr c
     \<and> map (\<lambda>r. r ''id'') (rows (df c)) = [StrV ''a1'', StrV ''b2'']"
  by (simp add: stage_defs pk_frame_def pk_meta_def)

theorem rows_out_le_rows_in_witness:
  "\<exists>c. clean_file sample_pandas ''2_bronze/goodreads/2024/raw_books'' pk_frame pk_meta None = Inr c
     \<and> length (rows (df c)) = 2 \<and> length (rows (pk_frame :: int dataframe)) = 4
     \<and> length (rows (df c)) \<le> length (rows (pk_frame :: int dataframe))"
proof -
  from clean_file_pk_frame obtain c where
    run: "clean_file sample_pandas ''2_bronze/goodreads/2024/raw_books'' pk_frame pk_meta None = Inr c"
    and ids: "map (\<lambda>r. r ''id'') (rows (df c)) = [StrV ''a1'', StrV ''b2'']"
    by (elim exE conjE)
  from ids have "length (map (\<lambda>r. r ''id'') (rows (df c))) = 2" by simp
  then have two: "length (rows (df c)) = 2" by simp
  have four: "length (rows (pk_frame :: int dataframe)) = 4"
    by (simp add: pk_frame_def)
  from rows_out_le_rows_in [OF run] run two four show ?thesis
    by (intro exI [of _ c] conjI)
qed

subsection \<open>The order of the stages\<close>

text \<open>
  C3. The chain runs \<^verbatim>\<open>validate_non_nulls\<close> before \<^verbatim>\<open>apply_defaults\<close>, although the
  comment over \<^verbatim>\<open>apply_defaults\<close> says that it fills before the other checks. On a file
  whose only record has no publisher, a non-nullable column with the default "Unknown",
  the chain returns no record; with the defaults filled first, the null check would keep
  the record. (The defaults do run before the range and regex checks, and the coercion
  before the range checks, as \<open>run_stages\<close> shows.)
\<close>

theorem defaults_run_after_null_check:
  "(\<exists>c. clean_file sample_pandas ''2_bronze/goodreads/2024/raw_books'' order_frame order_meta
          (Some order_rules) = Inr c \<and> rows (df c) = [])
   \<and> (\<exists>c0 c1. new_DataCleaning ''2_bronze/goodreads/2024/raw_books'' order_frame order_meta
          (Some order_rules) = Inr c0
        \<and> validate_non_nulls (apply_defaults c0) = Inr c1
        \<and> map (\<lambda>r. r ''publisher'') (rows (df c1)) = [StrV ''Unknown'' :: int cell])"
proof -
  have "\<exists>c. clean_file sample_pandas ''2_bronze/goodreads/2024/raw_books'' order_frame order_meta
          (Some order_rules) = Inr c \<and> rows (df c) = []"
    by (simp add: stage_defs order_frame_def order_meta_def order_rules_def)
  moreover have "\<exists>c0 c1. new_DataCleaning ''2_bronze/goodreads/2024/raw_books'' order_frame order_meta
          (Some order_rules) = Inr c0
        \<and> validate_non_nulls (apply_defaults c0) = Inr c1
        \<and> map (\<lambda>r. r ''publisher'') (rows (df c1)) = [StrV ''Unknown'' :: int cell]"
    by (simp add: stage_defs order_frame_def order_meta_def order_rules_def)
  ultimately show ?thesis by (rule conjI)
qed

subsection \<open>The regex filter\<close>

lemma regex_loop_filter:
  "regex_loop E rules d =
     d\<lparr>rows := filter (\<lambda>r. \<forall>(col, pattern) \<in> set rules.
                          col \<in> set (columns d) \<longrightarrow> re_match pattern (py_str E (r col))) (rows d)\<rparr>"
proof (induction E rules d rule: regex_loop.induct)
  case (1 E d)
  then show ?case by simp
next
  case (2 E col pattern rules d)
  show ?case
  proof (cases "col \<in> set (columns d)")
    case True
    with 2 show ?thesis
      by (simp add: conj_commute cong: conj_cong)
  next
    case False
    with 2 show ?thesis by simp
  qed
qed

lemma code_cleaner_kept:
  "map (\<lambda>r. r ''code'') (rows (df (apply_regex sample_pandas code_cleaner))) =
     [StrV ''1234'', StrV ''123'']"
  by code_simp

lemma code_cleaner_fullmatch:
  "map (\<lambda>r. r ''code'')
     (filter (\<lambda>r. re_fullmatch three_digits (py_str sample_pandas (r ''code'')))
        (rows (df code_cleaner))) = [StrV ''123'']"
  by code_simp

text \<open>
  C6, as the spec states it: the filter keeps exactly the records whose string fully
  matches the pattern. Under \<^verbatim>\<open>\d{3}\<close> the code 1234 does not fully match, and is kept.
\<close>

theorem apply_regex_fullmatch_counterexample:
  "rows (df (apply_regex sample_pandas code_cleaner)) \<noteq>
     filter (\<lambda>r. re_fullmatch three_digits (py_str sample_pandas (r ''code'')))
       (rows (df code_cleaner))"
proof
  assume "rows (df (apply_regex sample_pandas code_cleaner)) =
     filter (\<lambda>r. re_fullmatch three_digits (py_str sample_pandas (r ''code'')))
       (rows (df code_cleaner))"
  with code_cleaner_kept code_cleaner_fullmatch
  have "[StrV ''1234'', StrV ''123''] = [StrV ''123'' :: int cell]" by simp
  then show False by simp
qed

text \<open>
  C6, amended. For the regex rules whose column is present, \<^verbatim>\<open>apply_regex\<close> keeps exactly
  the records whose string (\<^verbatim>\<open>str\<close> of the cell, "nan" for a missing value) has a match
  of the pattern at its start, as \<^verbatim>\<open>str.match\<close> decides, and drops the others; the
  columns stay. A record that fully matches is always kept.
\<close>

theorem apply_regex_keeps_matches:
  "rows (df (apply_regex E c)) =
     filter (\<lambda>r. \<forall>(col, pattern) \<in> set (regex_rules (flex_rules c)).
               col \<in> set (columns (df c)) \<longrightarrow> re_match pattern (py_str E (r col))) (rows (df c))
   \<and> columns (df (apply_regex E c)) = columns (df c)
   \<and> (\<forall>pattern s. re_fullmatch pattern s \<longrightarrow> re_match pattern s)"
  by (auto simp: apply_regex_def regex_loop_filter re_match_def re_fullmatch_def)

theorem apply_regex_keeps_matches_witness:
  "map (\<lambda>r. r ''code'')
     (filter (\<lambda>r. \<forall>(col, pattern) \<in> set (regex_rules (flex_rules (code_cleaner :: int DataCleaning))).
               col \<in> set (columns (df (code_cleaner :: int DataCleaning)))
                 \<longrightarrow> re_match pattern (py_str sample_pandas (r col)))
        (rows (df code_cleaner))) = [StrV ''1234'', StrV ''123'']
   \<and> re_match three_digits ''1234'' \<and> \<not> re_fullmatch three_digits ''1234''"
proof -
  from apply_regex_keeps_matches [of sample_pandas code_cleaner]
  have "rows (df (apply_regex sample_pandas code_cleaner)) =
     filter (\<lambda>r. \<forall>(col, pattern) \<in> set (regex_rules (flex_rules (code_cleaner :: int DataCleaning))).
               col \<in> set (columns (df (code_cleaner :: int DataCleaning)))
                 \<longrightarrow> re_match pattern (py_str sample_pandas (r col)))
        (rows (df code_cleaner))"
    by (rule conjunct1)
  with code_cleaner_kept have "map (\<lambda>r. r ''code'')
     (filter (\<lambda>r. \<forall>(col, pattern) \<in> set (regex_rules (flex_rules (code_cleaner :: int DataCleaning))).
               col \<in> set (columns (df (code_cleaner :: int DataCleaning)))
                 \<longrightarrow> re_match pattern (py_str sample_pandas (r col)))
        (rows (df code_cleaner))) = [StrV ''1234'', StrV ''123'']"
    by simp
  moreover have "re_match three_digits ''1234'' \<and> \<not> re_fullmatch three_digits ''1234''"
    by code_simp
  ultimately show ?thesis by (rule conjI)
qed

subsection \<open>Datatype coercion\<close>

lemma map_result_zip:
  "map_result f xs = Inr ys \<Longrightarrow> (\<And>x y. f x = Inr y \<Longrightarrow> g x = y)
     \<Longrightarrow> zip xs ys = map (\<lambda>x. (x, g x)) xs"
  by (induction xs arbitrary: ys) (auto split: sum.splits)

lemma map_result_all: "map_result f xs = Inr ys \<Longrightarrow> x \<in> set xs \<Longrightarrow> \<exists>y. f x = Inr y"
  by (induction xs arbitrary: ys) (auto split: sum.splits)

lemma map_result_Inr_iff: "(\<exists>ys. map_result f xs = Inr ys) \<longleftrightarrow> (\<forall>x \<in> set xs. \<exists>y. f x = Inr y)"
  by (induction xs) (auto split: sum.splits)

lemma coerce_column_rows:
  assumes "coerce_column col coerce cast d = Inr d'"
  shows "rows d' = map (\<lambda>r. r(col := (case cast (coerce (r col)) of Inr w \<Rightarrow> w | Inl e \<Rightarrow> r col)))
                     (filter (\<lambda>r. \<not> (isna (coerce (r col)) \<and> notna (r col))) (rows d))
         \<and> columns d' = columns d
         \<and> (\<forall>r \<in> set (rows d). \<exists>w. cast (coerce (r col)) = Inr w)"
proof -
  from assms obtain casted where
    c: "map_result (\<lambda>r. cast (coerce (r col))) (rows d) = Inr casted" and
    d': "d' = d\<lparr>rows := map (\<lambda>(r, w). r(col := w))
                   (filter (\<lambda>(r, w). \<not> (isna (coerce (r col)) \<and> notna (r col)))
                      (zip (rows d) casted))\<rparr>"
    by (auto simp: coerce_column_def split: sum.splits)
  have z: "zip (rows d) casted =
      map (\<lambda>r. (r, case cast (coerce (r col)) of Inr w \<Rightarrow> w | Inl e \<Rightarrow> r col)) (rows d)"
    by (rule map_result_zip [OF c]) simp
  show ?thesis
    using map_result_all [OF c]
    by (auto simp: d' z filter_map o_def)
qed

lemma datatype_step_present:
  assumes "column_name m \<in> set (columns d)" and "datatype_step E m (d, lg) = Inr (d', lg')"
  shows "rows d' = map (\<lambda>r. r(column_name m := cast_value E m (r (column_name m))))
                     (filter (\<lambda>r. \<not> dropped_by E m (r (column_name m))) (rows d))"
    and "columns d' = columns d" and "lg' = lg"
    and "\<forall>r \<in> set (rows d). \<exists>w. cast_cell E m (r (column_name m)) = Inr w"
  using assms
  by (auto simp: datatype_step_def Let_def cast_value_def cast_cell_def dropped_by_def typed_def
      coerced_def split: if_splits sum.splits dest!: coerce_column_rows)

lemma datatype_step_absent:
  "column_name m \<notin> set (columns d) \<Longrightarrow>
     datatype_step E m (d, lg) = Inr (d, lg @ [missing_warning (column_name m)])"
  by (simp add: datatype_step_def)


lemma astype_Int64_fixed:
  "astype_Int64 E v = Inr w \<Longrightarrow> astype_Int64 E (to_numeric E w) = Inr w \<and> \<not> (isna (to_numeric E w) \<and> notna w)"
  by (cases v) (auto simp: notna_def split: option.splits)

lemma astype_float_fixed:
  "astype_float E v = Inr w \<Longrightarrow> astype_float E (to_numeric E w) = Inr w \<and> \<not> (isna (to_numeric E w) \<and> notna w)"
  by (cases v) (auto simp: notna_def)

lemma to_datetime_fixed:
  "to_datetime E (to_datetime E v) = to_datetime E v
   \<and> \<not> (isna (to_datetime E (to_datetime E v)) \<and> notna (to_datetime E v))"
  by (cases v) (auto simp: notna_def split: option.splits)

lemma cast_fixed: "cast_cell E m v = Inr w \<Longrightarrow> fixed E m w"
  unfolding fixed_def cast_cell_def dropped_by_def coerced_def typed_def
  using astype_Int64_fixed [of E "to_numeric E v" w] astype_float_fixed [of E "to_numeric E v" w]
    to_datetime_fixed [of E v]
  by (auto split: if_splits)

lemma map_result_Inr_map:
  "(\<And>x. x \<in> set xs \<Longrightarrow> f x = Inr (g x)) \<Longrightarrow> map_result f xs = Inr (map g xs)"
  by (induction xs) auto

lemma coerce_column_id:
  assumes "\<And>r. r \<in> set (rows d) \<Longrightarrow>
     cast (coerce (r col)) = Inr (r col) \<and> \<not> (isna (coerce (r col)) \<and> notna (r col))"
  shows "coerce_column col coerce cast d = Inr d"
proof -
  have m: "map_result (\<lambda>r. cast (coerce (r col))) (rows d) = Inr (map (\<lambda>r. r col) (rows d))"
    by (rule map_result_Inr_map) (simp add: assms)
  have z: "zip (rows d) (map (\<lambda>r. r col) (rows d)) = map (\<lambda>r. (r, r col)) (rows d)"
    by (induction "rows d") (auto simp: zip_map2 zip_same_conv_map)
  have f: "filter (\<lambda>x. isna (coerce (x col)) \<longrightarrow> \<not> notna (x col)) (rows d) = rows d"
    using assms by (intro filter_True) auto
  show ?thesis
    by (simp add: coerce_column_def m z filter_map o_def f)
qed

lemma datatype_step_fixed:
  assumes "column_name m \<in> set (columns d)"
    and "\<And>r. r \<in> set (rows d) \<Longrightarrow> fixed E m (r (column_name m))"
  shows "datatype_step E m (d, lg) = Inr (d, lg)"
proof -
  let ?col = "column_name m"
  consider (int) "lower (dtype m) \<in> {''int'', ''integer''}"
    | (float) "lower (dtype m) \<notin> {''int'', ''integer''}" "lower (dtype m) \<in> {''float'', ''double''}"
    | (date) "lower (dtype m) \<notin> {''int'', ''integer''}" "lower (dtype m) \<notin> {''float'', ''double''}"
        "lower (dtype m) \<in> {''date'', ''datetime''}"
    | (str) "lower (dtype m) \<notin> {''int'', ''integer''}" "lower (dtype m) \<notin> {''float'', ''double''}"
        "lower (dtype m) \<notin> {''date'', ''datetime''}"
    by blast
  then show ?thesis
  proof cases
    case int
    have "coerce_column ?col (to_numeric E) (astype_Int64 E) d = Inr d"
      using assms(2) int
      by (intro coerce_column_id) (auto simp: fixed_def cast_cell_def dropped_by_def coerced_def typed_def)
    with int assms(1) show ?thesis by (simp add: datatype_step_def)
  next
    case float
    have "coerce_column ?col (to_numeric E) (astype_float E) d = Inr d"
      using assms(2) float
      by (intro coerce_column_id) (auto simp: fixed_def cast_cell_def dropped_by_def coerced_def typed_def)
    with float assms(1) show ?thesis by (simp add: datatype_step_def)
  next
    case date
    have "coerce_column ?col (to_datetime E) Inr d = Inr d"
      using assms(2) date
      by (intro coerce_column_id) (auto simp: fixed_def cast_cell_def dropped_by_def coerced_def typed_def)
    with date assms(1) show ?thesis by (simp add: datatype_step_def)
  next
    case str
    have "map (\<lambda>r. r(?col := StrV (py_str E (r ?col)))) (rows d) = map (\<lambda>r. r) (rows d)"
      using assms(2) str
      by (intro map_cong) (auto simp: fixed_def cast_cell_def)
    with str assms(1) show ?thesis by (simp add: datatype_step_def)
  qed
qed

lemma datatype_step_columns:
  "datatype_step E m (d, lg) = Inr (d', lg') \<Longrightarrow> columns d' = columns d"
  by (cases "column_name m \<in> set (columns d)")
     (auto simp: datatype_step_absent dest: datatype_step_present(2))

lemma datatype_loop_columns:
  "datatype_loop E ms (d, lg) = Inr (d', lg') \<Longrightarrow> columns d' = columns d"
proof (induction ms arbitrary: d lg)
  case Nil
  then show ?case by simp
next
  case (Cons m ms)
  then obtain d1 lg1 where 1: "datatype_step E m (d, lg) = Inr (d1, lg1)"
    and 2: "datatype_loop E ms (d1, lg1) = Inr (d', lg')"
    by (auto split: sum.splits)
  from Cons.IH [OF 2] datatype_step_columns [OF 1] show ?case by simp
qed

lemma cast_row_other:
  "k \<notin> column_name ` set ms \<Longrightarrow> cast_row E cols ms r k = r k"
  by (induction ms arbitrary: r) auto


lemma datatype_step_fixes:
  assumes "column_name m \<in> set (columns d)" and "datatype_step E m (d, lg) = Inr (d1, lg1)"
    and "r' \<in> set (rows d1)"
  shows "fixed E m (r' (column_name m))"
proof -
  from datatype_step_present(1) [OF assms(1,2)] assms(3) obtain r where
    r: "r \<in> set (rows d)" and r': "r' = r(column_name m := cast_value E m (r (column_name m)))"
    by auto
  from datatype_step_present(4) [OF assms(1,2)] r obtain w where
    w: "cast_cell E m (r (column_name m)) = Inr w" by blast
  then have "r' (column_name m) = w" by (simp add: r' cast_value_def)
  with cast_fixed [OF w] show ?thesis by simp
qed

lemma datatype_step_other:
  assumes "datatype_step E m (d, lg) = Inr (d1, lg1)" and "k \<noteq> column_name m"
    and "r' \<in> set (rows d1)"
  shows "\<exists>r \<in> set (rows d). r' k = r k"
proof (cases "column_name m \<in> set (columns d)")
  case True
  from datatype_step_present(1) [OF True assms(1)] assms(2,3) show ?thesis by auto
next
  case False
  with assms show ?thesis by (auto simp: datatype_step_absent)
qed

lemma datatype_loop_other:
  "datatype_loop E ms (d, lg) = Inr (d', lg') \<Longrightarrow> k \<notin> column_name ` set ms
     \<Longrightarrow> r' \<in> set (rows d') \<Longrightarrow> \<exists>r \<in> set (rows d). r' k = r k"
proof (induction ms arbitrary: d lg)
  case Nil
  then show ?case by auto
next
  case (Cons m ms)
  then obtain d1 lg1 where 1: "datatype_step E m (d, lg) = Inr (d1, lg1)"
    and 2: "datatype_loop E ms (d1, lg1) = Inr (d', lg')"
    by (auto split: sum.splits)
  from Cons.prems have k: "k \<noteq> column_name m" "k \<notin> column_name ` set ms" by auto
  from Cons.IH [OF 2 k(2) Cons.prems(3)] obtain r1 where
    r1: "r1 \<in> set (rows d1)" "r' k = r1 k" by blast
  from datatype_step_other [OF 1 k(1) r1(1)] r1(2) show ?case by auto
qed

lemma datatype_loop_fixes:
  "datatype_loop E ms (d, lg) = Inr (d', lg') \<Longrightarrow> distinct (map column_name ms)
     \<Longrightarrow> m \<in> set ms \<Longrightarrow> column_name m \<in> set (columns d) \<Longrightarrow> r' \<in> set (rows d')
     \<Longrightarrow> fixed E m (r' (column_name m))"
proof (induction ms arbitrary: d lg)
  case Nil
  then show ?case by simp
next
  case (Cons a ms)
  then obtain d1 lg1 where 1: "datatype_step E a (d, lg) = Inr (d1, lg1)"
    and 2: "datatype_loop E ms (d1, lg1) = Inr (d', lg')"
    by (auto split: sum.splits)
  from Cons.prems have dist: "distinct (map column_name ms)"
    and fresh: "column_name a \<notin> column_name ` set ms" by auto
  note cols = datatype_step_columns [OF 1]
  show ?case
  proof (cases "m \<in> set ms")
    case True
    from Cons.IH [OF 2 dist True _ Cons.prems(5)] Cons.prems(4) cols show ?thesis by simp
  next
    case False
    with Cons.prems have ma: "m = a" by simp
    from datatype_loop_other [OF 2 fresh Cons.prems(5)] obtain r1 where
      r1: "r1 \<in> set (rows d1)" "r' (column_name a) = r1 (column_name a)" by blast
    from datatype_step_fixes [OF _ 1 r1(1)] Cons.prems(4) ma r1(2) show ?thesis by simp
  qed
qed

lemma datatype_loop_fixed:
  "(\<And>m r. m \<in> set ms \<Longrightarrow> column_name m \<in> set (columns d) \<Longrightarrow> r \<in> set (rows d)
       \<Longrightarrow> fixed E m (r (column_name m)))
   \<Longrightarrow> datatype_loop E ms (d, lg) = Inr (d, lg @ missing_warnings (columns d) ms)"
proof (induction ms arbitrary: lg)
  case Nil
  then show ?case by (simp add: missing_warnings_def)
next
  case (Cons a ms)
  have IH: "datatype_loop E ms (d, lg') = Inr (d, lg' @ missing_warnings (columns d) ms)" for lg'
    by (rule Cons.IH) (simp add: Cons.prems)
  show ?case
  proof (cases "column_name a \<in> set (columns d)")
    case True
    have "datatype_step E a (d, lg) = Inr (d, lg)"
      by (rule datatype_step_fixed [OF True]) (simp add: Cons.prems True)
    with IH True show ?thesis by (simp add: missing_warnings_def)
  next
    case False
    with IH show ?thesis by (simp add: datatype_step_absent missing_warnings_def)
  qed
qed

lemma pages_run:
  "\<exists>c'. validate_datatype sample_pandas pages_cleaner = Inr c'
     \<and> map (\<lambda>r. r ''pages'') (rows (df c')) = [IntV 12, NA]
     \<and> logged c' = [missing_warning ''year'']
     \<and> columns (df c') = [''pages'']
     \<and> meta_data_table c' = meta_data_table pages_cleaner"
  by (simp add: stage_defs pages_cleaner_def sample_pandas_def is_digit_def int_of_digits_def digit_val_def)

lemma pages_distinct:
  "distinct (map column_name (meta_data_table (pages_cleaner :: int DataCleaning)))"
  by (simp add: pages_cleaner_def)




text \<open>
  C5, as the spec states it, for every frame and metadata. With a column of 5.0 and a
  null that is declared twice, as an integer and then as a string, the first run keeps
  both records, writing the null as the string "<NA>"; the second run cannot read that
  string as a number and drops its record.
\<close>

theorem validate_datatype_twice_counterexample:
  "rows_out (validate_datatype sample_pandas twice_cleaner) = Some 2
   \<and> rows_out (bind (validate_datatype sample_pandas twice_cleaner)
                  (validate_datatype sample_pandas)) = Some 1"
  by code_simp

text \<open>
  C5, amended. On metadata that declares every column once, a run of
  \<^verbatim>\<open>validate_datatype\<close> on the result of a run that returned returns too, drops no record
  and changes no cell: the result differs only by the warnings logged once more.
\<close>

theorem validate_datatype_idempotent:
  assumes "validate_datatype E c = Inr c'" and "distinct (map column_name (meta_data_table c))"
  shows "validate_datatype E c' =
           Inr (c'\<lparr>logged := logged c' @ missing_warnings (columns (df c')) (meta_data_table c')\<rparr>)"
proof -
  from assms(1) obtain d' lg' where
    loop: "datatype_loop E (meta_data_table c) (df c, logged c) = Inr (d', lg')"
    and c': "c' = c\<lparr>df := d', logged := lg'\<rparr>"
    by (auto simp: validate_datatype_def split: sum.splits)
  note cols = datatype_loop_columns [OF loop]
  have "datatype_loop E (meta_data_table c) (d', lg') =
      Inr (d', lg' @ missing_warnings (columns d') (meta_data_table c))"
    by (rule datatype_loop_fixed) (simp add: datatype_loop_fixes [OF loop assms(2)] cols)
  then show ?thesis
    by (simp add: validate_datatype_def c')
qed
theorem validate_datatype_idempotent_witness:
  "\<exists>c'. validate_datatype sample_pandas pages_cleaner = Inr c'
     \<and> distinct (map column_name (meta_data_table (pages_cleaner :: int DataCleaning)))
     \<and> validate_datatype sample_pandas c' = Inr (c'\<lparr>logged := logged c' @ [missing_warning ''year'']\<rparr>)"
proof -
  from pages_run obtain c' where run: "validate_datatype sample_pandas pages_cleaner = Inr c'"
    and cols: "columns (df c') = [''pages'']"
    and md: "meta_data_table c' = meta_data_table pages_cleaner"
    by (elim exE conjE)
  have "missing_warnings (columns (df c')) (meta_data_table c') = [missing_warning ''year'']"
    by (simp add: cols md pages_cleaner_def missing_warnings_def)
  with validate_datatype_idempotent [OF run pages_distinct]
  have "validate_datatype sample_pandas c' = Inr (c'\<lparr>logged := logged c' @ [missing_warning ''year'']\<rparr>)"
    by simp
  with run pages_distinct show ?thesis
    by (intro exI [of _ c'] conjI)
qed

end
